theory Spec2Isabelle
  imports Complex_Main "HOL-Library.Multiset" "HOL-Library.Char_ord" "HOL-Library.List_Lexorder"
    "HOL-Library.Sublist"
begin

section \<open>Data model of \<open>article_learner.py\<close>\<close>

text \<open>
  The module is orchestration code over scikit-learn and NumPy. The values it handles are
  modelled as follows; floating-point numbers are read as reals (no rounding, no NaN).
\<close>

datatype exn = ValueError | TypeError | IndexError | KeyError | LibraryError string

text \<open>The three classifier classes the driver passes as \<open>learner\<close>.\<close>

datatype learner = DecisionTreeClassifier | MultinomialNB | LogisticRegression

text \<open>Hyperparameter values as the literals of the source write them (\<open>1\<close> versus \<open>1.0\<close>).\<close>

datatype pnum = PInt int | PFloat real

type_synonym params = "(string \<times> pnum) list"
type_synonym param_grid = "(string \<times> pnum list) list"

text \<open>
  What an attribute such as \<open>coef_\<close> can hold, and what \<open>variable_importance\<close> can
  return: Python's \<open>None\<close>, a scalar, a one-dimensional float array, or a two-dimensional
  float array, given by its number of columns and the list of its rows (so that the shapes
  \<open>(0, n)\<close> and \<open>(r, 0)\<close> are told apart).
\<close>

datatype pyvalue = PyNone | PyFloat real | Array1 "real list" | Array2 nat "real list list"

text \<open>Integer index arrays, as \<open>np.argpartition\<close> returns them, and one element of such an array.\<close>

datatype ixarray = Ix1 "nat list" | Ix2 "nat list list"

datatype index = Scalar nat | Row "nat list"

text \<open>
  An estimator object. \<open>coef\<close> and \<open>feature_importances\<close> stand for the attributes
  \<open>coef_\<close> and \<open>feature_importances_\<close>: \<open>None\<close> when \<open>hasattr\<close> is false, \<open>Some v\<close>
  when the attribute exists with value \<open>v\<close>. \<open>init_args\<close> are the constructor arguments
  and parameters set on it.
\<close>

record estimator =
  cls :: learner
  init_args :: params
  coef :: "pyvalue option"
  feature_importances :: "pyvalue option"

text \<open>
  A fitted \<open>GridSearchCV\<close> object: the three attributes the trainer reads
  (\<open>best_params_\<close>, \<open>best_score_\<close>, \<open>best_estimator_\<close>), and two it does not read,
  the candidates the search evaluated (\<open>cv_results_['params']\<close>) and the number of
  cross-validation splits (\<open>n_splits_\<close>).
\<close>

record grid_search =
  best_params :: params
  best_score :: real
  best_estimator :: estimator
  cv_results_params :: "params list"
  n_splits :: nat

type_synonym matrix = "real list list"
type_synonym labels = "int list"

text \<open>
  Modelled from the spec: the class \<open>ArticleDB\<close> of \<open>code/article_db.py\<close> is not among
  the sources. The spec gives it a feature matrix \<open>X\<close> (one row per article), a label
  vector \<open>y\<close>, and \<open>column_number\<close>, "a mapping from column index to human-readable
  feature name", modelled here as a dictionary.
\<close>

record ArticleDB =
  db_X :: matrix
  db_y :: labels
  column_number :: "nat \<rightharpoonup> string"

text \<open>
  One printed line, kept by the fields its f-string interpolates: the header
  (classifier name, best parameters), the two accuracy lines, the caption of the ranking,
  and one feature line (rank + 1, feature name, feature score).
\<close>

datatype line =
  Header string params
  | Val_accuracy real
  | Test_accuracy real
  | Most_important
  | Feature_line nat string pyvalue

text \<open>
  The calls a run makes, in order: the dataset constructor with its two keyword arguments,
  each entry into \<open>train_model\<close> with its three arguments, the split with its
  \<open>test_size\<close> and \<open>random_state\<close>, and each \<open>GridSearchCV(...).fit\<close> with the
  estimator and grid it was built from and the training partition it is given, each fit of
  the estimator that the search performs inside, with the parameters set for it, and each
  \<open>score\<close> with the test partition.
\<close>

datatype call =
  Call_ArticleDB bool bool
  | Call_train_model ArticleDB learner param_grid
  | Call_train_test_split matrix labels real "nat option"
  | Call_GridSearchCV_fit estimator param_grid matrix labels
  | Call_estimator_fit params
  | Call_score matrix labels

text \<open>
  The process state: the state of NumPy's global random generator, what has been written to
  standard output, and the log of calls.
\<close>

record world =
  rng :: nat
  stdout :: "line list"
  calls :: "call list"

text \<open>
  The operations the module takes from elsewhere. \<open>ArticleDB_init\<close> is the constructor
  \<open>ArticleDB(domain_endings=..., author=...)\<close>; \<open>train_test_split\<close>,
  \<open>GridSearchCV_fit\<close> and \<open>score\<close> are scikit-learn's (the first two draw from the random
  generator and return its new state); \<open>repr\<close> is the estimator's \<open>__repr__\<close>;
  \<open>introselect\<close> is the selection kernel inside \<open>np.argpartition\<close>, which permutes the
  indices of one lane around position \<open>k\<close>.
\<close>

record library =
  ArticleDB_init :: "bool \<Rightarrow> bool \<Rightarrow> exn + ArticleDB"
  train_test_split ::
    "nat \<Rightarrow> matrix \<Rightarrow> labels \<Rightarrow> real \<Rightarrow> nat option
      \<Rightarrow> exn + ((matrix \<times> matrix \<times> labels \<times> labels) \<times> nat)"
  GridSearchCV_fit ::
    "nat \<Rightarrow> estimator \<Rightarrow> param_grid \<Rightarrow> matrix \<Rightarrow> labels \<Rightarrow> exn + (grid_search \<times> nat)"
  score :: "grid_search \<Rightarrow> matrix \<Rightarrow> labels \<Rightarrow> exn + real"
  repr :: "estimator \<Rightarrow> string"
  introselect :: "real list \<Rightarrow> nat \<Rightarrow> nat list"

section \<open>The importance extractor\<close>

text \<open>
  \<open>variable_importance\<close>: the two \<open>hasattr\<close> tests in the source's order; falling off the
  end of the function returns \<open>None\<close>.
\<close>

definition variable_importance :: "estimator \<Rightarrow> pyvalue" where
  "variable_importance e =
     (case coef e of
        Some c \<Rightarrow> c
      | None \<Rightarrow> (case feature_importances e of Some f \<Rightarrow> f | None \<Rightarrow> PyNone))"

section \<open>NumPy indexing used by the trainer\<close>

text \<open>
  \<open>np.argpartition(a, kth)\<close> with the default \<open>axis=-1\<close>. A negative \<open>kth\<close> counts from
  the end of the axis. A \<open>kth\<close> outside the axis raises \<open>ValueError\<close>, but NumPy makes this
  check only when the array has at least one element; an array of size 0 is returned as an
  empty index array of the same shape. A two-dimensional array is partitioned row by row,
  and a zero-dimensional operand (\<open>None\<close> becomes a zero-dimensional object array) is
  treated as one element.
\<close>

definition normalize_kth :: "nat \<Rightarrow> nat \<Rightarrow> int \<Rightarrow> exn + nat" where
  "normalize_kth sz n kth =
     (let k = (if kth < 0 then kth + int n else kth)
      in if sz \<noteq> 0 \<and> (k < 0 \<or> int n \<le> k) then Inl ValueError else Inr (nat k))"

fun argpartition :: "(real list \<Rightarrow> nat \<Rightarrow> nat list) \<Rightarrow> pyvalue \<Rightarrow> int \<Rightarrow> exn + ixarray" where
  "argpartition sel (Array1 v) kth =
     (case normalize_kth (length v) (length v) kth of
        Inl e \<Rightarrow> Inl e
      | Inr k \<Rightarrow> Inr (Ix1 (if v = [] then [] else sel v k)))"
| "argpartition sel (Array2 n rows) kth =
     (case normalize_kth (length rows * n) n kth of
        Inl e \<Rightarrow> Inl e
      | Inr k \<Rightarrow>
          Inr (Ix2 (if length rows * n = 0 then map (\<lambda>r. []) rows
                    else map (\<lambda>r. sel r k) rows)))"
| "argpartition sel (PyFloat x) kth =
     (case normalize_kth 1 1 kth of Inl e \<Rightarrow> Inl e | Inr k \<Rightarrow> Inr (Ix1 [0]))"
| "argpartition sel PyNone kth =
     (case normalize_kth 1 1 kth of Inl e \<Rightarrow> Inl e | Inr k \<Rightarrow> Inr (Ix1 [0]))"

text \<open>The slice \<open>[-10:]\<close> along the first axis: the last ten entries, or all when fewer.\<close>

fun last_10 :: "ixarray \<Rightarrow> ixarray" where
  "last_10 (Ix1 p) = Ix1 (drop (length p - 10) p)"
| "last_10 (Ix2 ps) = Ix2 (drop (length ps - 10) ps)"

text \<open>\<open>top_10_vars[rank]\<close> for a rank that is not negative.\<close>

fun ix_getitem :: "ixarray \<Rightarrow> nat \<Rightarrow> exn + index" where
  "ix_getitem (Ix1 p) i = (if i < length p then Inr (Scalar (p ! i)) else Inl IndexError)"
| "ix_getitem (Ix2 ps) i = (if i < length ps then Inr (Row (ps ! i)) else Inl IndexError)"

text \<open>
  \<open>data.column_number[feature_col]\<close>: a dictionary lookup. An integer key that is absent
  raises \<open>KeyError\<close>; an array is not hashable and raises \<open>TypeError\<close>.
\<close>

fun column_lookup :: "ArticleDB \<Rightarrow> index \<Rightarrow> exn + string" where
  "column_lookup data (Scalar i) =
     (case column_number data i of None \<Rightarrow> Inl KeyError | Some name \<Rightarrow> Inr name)"
| "column_lookup data (Row r) = Inl TypeError"

text \<open>
  \<open>var_imp[feature_col]\<close>: an integer selects along the first axis, an index array selects
  several entries along it; out of range raises \<open>IndexError\<close>, \<open>None\<close> is not
  subscriptable.
\<close>

fun getitem :: "pyvalue \<Rightarrow> index \<Rightarrow> exn + pyvalue" where
  "getitem PyNone i = Inl TypeError"
| "getitem (PyFloat x) i = Inl IndexError"
| "getitem (Array1 v) (Scalar i) = (if i < length v then Inr (PyFloat (v ! i)) else Inl IndexError)"
| "getitem (Array1 v) (Row r) =
     (if \<forall>i \<in> set r. i < length v then Inr (Array1 (map (\<lambda>i. v ! i) r)) else Inl IndexError)"
| "getitem (Array2 n rows) (Scalar i) =
     (if i < length rows then Inr (Array1 (rows ! i)) else Inl IndexError)"
| "getitem (Array2 n rows) (Row r) =
     (if \<forall>i \<in> set r. i < length rows then Inr (Array2 n (map (\<lambda>i. rows ! i) r))
      else Inl IndexError)"

section \<open>The trainer\<close>

definition print :: "line \<Rightarrow> world \<Rightarrow> world" where
  "print l w = w\<lparr>stdout := stdout w @ [l]\<rparr>"

definition log_call :: "call \<Rightarrow> world \<Rightarrow> world" where
  "log_call c w = w\<lparr>calls := calls w @ [c]\<rparr>"

definition log_calls :: "call list \<Rightarrow> world \<Rightarrow> world" where
  "log_calls cs w = w\<lparr>calls := calls w @ cs\<rparr>"

text \<open>Line 30: \<open>top_10_vars = np.argpartition(var_imp, -10)[-10:]\<close>.\<close>

definition top_10_vars :: "library \<Rightarrow> pyvalue \<Rightarrow> exn + ixarray" where
  "top_10_vars L var_imp =
     (case argpartition (introselect L) var_imp (- 10) of
        Inl e \<Rightarrow> Inl e
      | Inr a \<Rightarrow> Inr (last_10 a))"

text \<open>
  Lines 32 to 36, the loop over \<open>range(10)\<close>, as a recursion over the ranks still to print.
  An exception leaves the lines printed so far on standard output.
\<close>

fun print_features ::
  "ArticleDB \<Rightarrow> pyvalue \<Rightarrow> ixarray \<Rightarrow> nat list \<Rightarrow> world \<Rightarrow> (exn + unit) \<times> world" where
  "print_features data var_imp top10 [] w = (Inr (), w)"
| "print_features data var_imp top10 (rank # ranks) w =
     (case ix_getitem top10 rank of
        Inl e \<Rightarrow> (Inl e, w)
      | Inr feature_col \<Rightarrow>
          (case column_lookup data feature_col of
             Inl e \<Rightarrow> (Inl e, w)
           | Inr feature_name \<Rightarrow>
               (case getitem var_imp feature_col of
                  Inl e \<Rightarrow> (Inl e, w)
                | Inr feature_score \<Rightarrow>
                    print_features data var_imp top10 ranks
                      (print (Feature_line (rank + 1) feature_name feature_score) w))))"

text \<open>Lines 29 to 36: the importance step of the trainer on the best estimator.\<close>

definition report_importance ::
  "library \<Rightarrow> ArticleDB \<Rightarrow> estimator \<Rightarrow> world \<Rightarrow> (exn + unit) \<times> world" where
  "report_importance L data est w =
     (let var_imp = variable_importance est
      in case top_10_vars L var_imp of
           Inl e \<Rightarrow> (Inl e, w)
         | Inr top10 \<Rightarrow> print_features data var_imp top10 [0..<10] (print Most_important w))"

section \<open>The trainer and the driver\<close>

text \<open>
  \<open>learner()\<close>: the class called with no arguments. The new estimator is not fitted, so it
  has neither \<open>coef_\<close> nor \<open>feature_importances_\<close>.
\<close>

definition instantiate :: "learner \<Rightarrow> estimator" where
  "instantiate k = \<lparr>cls = k, init_args = [], coef = None, feature_importances = None\<rparr>"

text \<open>\<open>s.find(c)\<close> (the first position of \<open>c\<close>, or \<open>-1\<close>) and the slice \<open>s[:i]\<close>.\<close>

definition py_find :: "string \<Rightarrow> char \<Rightarrow> int" where
  "py_find s c = (if c \<in> set s then int (length (takeWhile (\<lambda>x. x \<noteq> c) s)) else - 1)"

definition py_slice_to :: "string \<Rightarrow> int \<Rightarrow> string" where
  "py_slice_to s i = (if 0 \<le> i then take (nat i) s else take (nat (int (length s) + i)) s)"

text \<open>
  What \<open>GridSearchCV.fit\<close> does with the estimator, as scikit-learn documents it: every
  candidate is fitted once per cross-validation split, candidate by candidate, and the best
  parameters are then fitted once more on the whole training partition (\<open>refit=True\<close>,
  the default, which the trainer does not change).
\<close>

definition estimator_fits :: "grid_search \<Rightarrow> params list" where
  "estimator_fits model =
     concat (map (replicate (n_splits model)) (cv_results_params model)) @ [best_params model]"

text \<open>
  \<open>train_model\<close>, line by line. The dataset is passed in and handed back, so that an
  assignment to one of its attributes would show in the result; the second component of the
  result is the dataset after the call. The normal result is \<open>Inr ()\<close>: the function returns
  \<open>None\<close>.
\<close>

text \<open>Line 25: the text of \<open>repr(learner)\<close> before its first parenthesis.\<close>

definition learner_repr :: "library \<Rightarrow> estimator \<Rightarrow> string" where
  "learner_repr L learner = py_slice_to (repr L learner) (py_find (repr L learner) CHR ''('')"

definition train_model ::
  "library \<Rightarrow> ArticleDB \<Rightarrow> learner \<Rightarrow> param_grid \<Rightarrow> world
    \<Rightarrow> (exn + unit) \<times> ArticleDB \<times> world" where
  "train_model L data learner_cls param_grid w0 =
     (let w1 = log_call (Call_train_model data learner_cls param_grid) w0;
          learner = instantiate learner_cls;
          X = db_X data;
          y = db_y data;
          w2 = log_call (Call_train_test_split X y 0.2 None) w1
      in case train_test_split L (rng w2) X y 0.2 None of
           Inl e \<Rightarrow> (Inl e, data, w2)
         | Inr ((X_train, X_test, y_train, y_test), r1) \<Rightarrow>
             (let w3 = log_call (Call_GridSearchCV_fit learner param_grid X_train y_train)
                        (w2\<lparr>rng := r1\<rparr>)
              in case GridSearchCV_fit L (rng w3) learner param_grid X_train y_train of
                   Inl e \<Rightarrow> (Inl e, data, w3)
                 | Inr (model, r2) \<Rightarrow>
                     (let w4 = log_call (Call_score X_test y_test)
                                 (log_calls (map Call_estimator_fit (estimator_fits model))
                                    (w3\<lparr>rng := r2\<rparr>))
                      in case score L model X_test y_test of
                           Inl e \<Rightarrow> (Inl e, data, w4)
                         | Inr accuracy \<Rightarrow>
                             (let w5 = print (Header (learner_repr L learner) (best_params model)) w4;
                                  w6 = print (Val_accuracy (best_score model)) w5;
                                  w7 = print (Test_accuracy accuracy) w6
                              in case report_importance L data (best_estimator model) w7 of
                                   (res, w8) \<Rightarrow> (res, data, w8)))))"

text \<open>The two grids the driver writes out.\<close>

definition alpha_grid :: param_grid where
  "alpha_grid = [(''alpha'', [PFloat 0.1, PFloat 1.0, PFloat 10.0, PFloat 100.0])]"

definition C_grid :: param_grid where
  "C_grid = [(''C'', [PFloat 0.01, PFloat 0.1, PInt 1, PInt 10, PInt 100])]"

text \<open>
  \<open>article_trainers\<close>: one dataset, three calls of the trainer; an exception in one call ends
  the driver there.
\<close>

definition article_trainers :: "library \<Rightarrow> world \<Rightarrow> (exn + unit) \<times> world" where
  "article_trainers L w0 =
     (let w1 = log_call (Call_ArticleDB False False) w0
      in case ArticleDB_init L False False of
           Inl e \<Rightarrow> (Inl e, w1)
         | Inr articles \<Rightarrow>
             (case train_model L articles DecisionTreeClassifier [] w1 of
                (Inl e, articles1, w2) \<Rightarrow> (Inl e, w2)
              | (Inr u1, articles1, w2) \<Rightarrow>
                  (case train_model L articles1 MultinomialNB alpha_grid w2 of
                     (Inl e, articles2, w3) \<Rightarrow> (Inl e, w3)
                   | (Inr u2, articles2, w3) \<Rightarrow>
                       (case train_model L articles2 LogisticRegression C_grid w3 of
                          (res, articles3, w4) \<Rightarrow> (res, w4)))))"

text \<open>
  Running the module as a script: the driver in a fresh process, nothing printed yet, with
  some initial state of the random generator.
\<close>

definition start :: "nat \<Rightarrow> world" where
  "start seed = \<lparr>rng = seed, stdout = [], calls = []\<rparr>"

definition main :: "library \<Rightarrow> nat \<Rightarrow> (exn + unit) \<times> world" where
  "main L seed = article_trainers L (start seed)"

section \<open>Documented behaviour of the libraries\<close>

text \<open>
  NumPy documents \<open>argpartition\<close> so: the result is a permutation of the indices of the
  lane; the element at position \<open>k\<close> is where a sort would put it, no element before it is
  larger and no element from it on is smaller; the order inside the two parts is undefined.
\<close>

definition partitioned_at :: "real list \<Rightarrow> nat \<Rightarrow> nat list \<Rightarrow> bool" where
  "partitioned_at v k p \<longleftrightarrow>
     sort p = [0..<length v]
     \<and> (\<forall>a \<in> set (take k p). v ! a \<le> v ! (p ! k))
     \<and> (\<forall>b \<in> set (drop k p). v ! (p ! k) \<le> v ! b)"

definition introselect_ok :: "library \<Rightarrow> bool" where
  "introselect_ok L \<longleftrightarrow> (\<forall>v k. k < length v \<longrightarrow> partitioned_at v k (introselect L v k))"

text \<open>
  scikit-learn documents \<open>train_test_split\<close> with a float \<open>test_size\<close> so: the test
  partition has \<open>ceil(test_size * n_samples)\<close> rows, the training partition the others, and
  the labels are split alongside.
\<close>

definition split_sizes_ok :: "library \<Rightarrow> bool" where
  "split_sizes_ok L \<longleftrightarrow>
     (\<forall>r X y ts rs X_train X_test y_train y_test r'.
        train_test_split L r X y ts rs = Inr ((X_train, X_test, y_train, y_test), r') \<longrightarrow>
          length X_test = nat \<lceil>ts * real (length X)\<rceil>
          \<and> length X_train = length X - length X_test
          \<and> length y_train = length X_train
          \<and> length y_test = length X_test)"

text \<open>
  scikit-learn's \<open>ParameterGrid\<close>: the candidates of a grid are the combinations of one
  value per name, names in sorted order, the first name varying slowest; an empty grid has
  the single candidate \<open>{}\<close>.
\<close>

fun product_dicts :: "param_grid \<Rightarrow> params list" where
  "product_dicts [] = [[]]"
| "product_dicts ((name, vs) # rest) =
     concat (map (\<lambda>v. map (\<lambda>d. (name, v) # d) (product_dicts rest)) vs)"

definition ParameterGrid :: "param_grid \<Rightarrow> params list" where
  "ParameterGrid grid = product_dicts (sort_key fst grid)"

text \<open>
  A fitted grid search has evaluated the candidates of its grid on at least two splits,
  reports one of the candidates as \<open>best_params_\<close>, and its \<open>best_estimator_\<close> is a
  clone of the estimator it was given with those parameters set.
\<close>

definition fit_ok :: "library \<Rightarrow> bool" where
  "fit_ok L \<longleftrightarrow>
     (\<forall>r est grid X y model r'.
        GridSearchCV_fit L r est grid X y = Inr (model, r') \<longrightarrow>
          cv_results_params model = ParameterGrid grid
          \<and> 2 \<le> n_splits model
          \<and> best_params model \<in> set (ParameterGrid grid)
          \<and> cls (best_estimator model) = cls est
          \<and> map_of (init_args (best_estimator model))
              = map_of (init_args est) ++ map_of (best_params model))"

section \<open>The order the specification asks for\<close>

text \<open>
  Column indices ranked by descending score, equal scores by ascending column index.
\<close>

definition ranked_descending :: "real list \<Rightarrow> nat list \<Rightarrow> bool" where
  "ranked_descending v cols \<longleftrightarrow>
     sorted_wrt (\<lambda>i j. v ! j < v ! i \<or> (v ! i = v ! j \<and> i < j)) cols"

text \<open>The scores of the feature lines on standard output, in the order printed.\<close>

fun printed_scores :: "line list \<Rightarrow> pyvalue list" where
  "printed_scores [] = []"
| "printed_scores (Feature_line r name s # ls) = s # printed_scores ls"
| "printed_scores (l # ls) = printed_scores ls"

fun is_feature_line :: "line \<Rightarrow> bool" where
  "is_feature_line (Feature_line r name s) = True"
| "is_feature_line l = False"

fun is_fit_call :: "call \<Rightarrow> bool" where
  "is_fit_call (Call_GridSearchCV_fit est grid X y) = True"
| "is_fit_call c = False"

fun is_estimator_fit :: "call \<Rightarrow> bool" where
  "is_estimator_fit (Call_estimator_fit p) = True"
| "is_estimator_fit c = False"

fun is_driver_call :: "call \<Rightarrow> bool" where
  "is_driver_call (Call_ArticleDB d a) = True"
| "is_driver_call (Call_train_model data k grid) = True"
| "is_driver_call c = False"

section \<open>A small library instance\<close>

text \<open>
  A concrete instance of the library operations, on which the statements below are
  evaluated: a dataset of ten articles with twelve features, a split that keeps the row
  order, a grid search that reports its first candidate and a tree-style importance vector,
  and index selection by a stable sort.
\<close>

definition learner_name :: "learner \<Rightarrow> string" where
  "learner_name k =
     (case k of DecisionTreeClassifier \<Rightarrow> ''DecisionTreeClassifier''
      | MultinomialNB \<Rightarrow> ''MultinomialNB''
      | LogisticRegression \<Rightarrow> ''LogisticRegression'')"

definition ref_articles :: ArticleDB where
  "ref_articles =
     \<lparr>db_X = replicate 10 [0, 1, 2, 3, 4, 5, 6, 7, 8, 9, 10, 11],
      db_y = [0, 1, 0, 1, 0, 1, 0, 1, 0, 1],
      column_number = (\<lambda>i. if i < 12 then Some (replicate (Suc i) CHR ''f'') else None)\<rparr>"

definition ref_importances :: "real list" where
  "ref_importances = [3, 1, 4, 1, 5, 9, 2, 6, 5, 3, 5, 8]"

definition ref_split ::
  "nat \<Rightarrow> matrix \<Rightarrow> labels \<Rightarrow> real \<Rightarrow> nat option
    \<Rightarrow> exn + ((matrix \<times> matrix \<times> labels \<times> labels) \<times> nat)" where
  "ref_split r X y ts rs =
     (let n_test = nat \<lceil>ts * real (length X)\<rceil>; n_train = length X - n_test
      in if n_train = 0 \<or> length y \<noteq> length X then Inl ValueError
         else Inr ((take n_train X, drop n_train X, take n_train y, drop n_train y), Suc r))"

text \<open>
  The grid search of the instance uses five splits (scikit-learn's default) and reports its
  first candidate; \<open>attrs\<close> says which attributes fitting sets on the estimator.
\<close>

definition ref_fit ::
  "(estimator \<Rightarrow> estimator) \<Rightarrow> nat \<Rightarrow> estimator \<Rightarrow> param_grid \<Rightarrow> matrix \<Rightarrow> labels
    \<Rightarrow> exn + (grid_search \<times> nat)" where
  "ref_fit attrs r est grid X y =
     (case ParameterGrid grid of
        [] \<Rightarrow> Inl ValueError
      | p # _ \<Rightarrow>
          Inr (\<lparr>best_params = p, best_score = 1,
                best_estimator = attrs (est\<lparr>init_args := p @ init_args est\<rparr>),
                cv_results_params = ParameterGrid grid, n_splits = 5\<rparr>,
               Suc r))"

definition argsort :: "real list \<Rightarrow> nat \<Rightarrow> nat list" where
  "argsort v k = sort_key (\<lambda>i. v ! i) [0..<length v]"

definition lib_with :: "(estimator \<Rightarrow> estimator) \<Rightarrow> library" where
  "lib_with attrs =
     \<lparr>ArticleDB_init = (\<lambda>domain_endings author. Inr ref_articles),
      train_test_split = ref_split,
      GridSearchCV_fit = ref_fit attrs,
      score = (\<lambda>model X y. Inr 1),
      repr = (\<lambda>e. learner_name (cls e) @ ''()''),
      introselect = argsort\<rparr>"

text \<open>Every fitted estimator gets a one-dimensional \<open>feature_importances_\<close>.\<close>

definition tree_attrs :: "estimator \<Rightarrow> estimator" where
  "tree_attrs e = e\<lparr>feature_importances := Some (Array1 ref_importances)\<rparr>"

definition ref_lib :: library where
  "ref_lib = lib_with tree_attrs"

text \<open>Fitting sets a \<open>feature_importances_\<close> of three entries only.\<close>

definition short_attrs :: "estimator \<Rightarrow> estimator" where
  "short_attrs e = e\<lparr>feature_importances := Some (Array1 [1, 2, 3])\<rparr>"

text \<open>
  Fitting sets what scikit-learn sets: \<open>feature_importances_\<close> on a tree, and on the two
  linear models a \<open>coef_\<close> of shape (1, number of features).
\<close>

definition sklearn_attrs :: "estimator \<Rightarrow> estimator" where
  "sklearn_attrs e =
     (case cls e of
        DecisionTreeClassifier \<Rightarrow> e\<lparr>feature_importances := Some (Array1 ref_importances)\<rparr>
      | MultinomialNB \<Rightarrow> e\<lparr>coef := Some (Array2 12 [ref_importances])\<rparr>
      | LogisticRegression \<Rightarrow> e\<lparr>coef := Some (Array2 12 [ref_importances])\<rparr>)"

text \<open>The estimator a fit of \<open>ref_lib\<close> returns for the decision tree with an empty grid.\<close>

definition ref_estimator :: estimator where
  "ref_estimator =
     (instantiate DecisionTreeClassifier)\<lparr>feature_importances := Some (Array1 ref_importances)\<rparr>"

text \<open>
  A coefficient vector with one large negative entry (column 0) and ten small positive ones.
\<close>

definition signed_example :: "real list" where
  "signed_example = [- 100, 1, 2, 3, 4, 5, 6, 7, 8, 9, 10]"

text \<open>Fitting sets an empty \<open>feature_importances_\<close> (a model fitted on no features).\<close>

definition empty_attrs :: "estimator \<Rightarrow> estimator" where
  "empty_attrs e = e\<lparr>feature_importances := Some (Array1 [])\<rparr>"



text \<open>A fitted linear model whose coefficient vector is \<open>signed_example\<close>.\<close>

definition signed_estimator :: estimator where
  "signed_estimator = (instantiate LogisticRegression)\<lparr>coef := Some (Array1 signed_example)\<rparr>"

text \<open>An instance whose dataset constructor raises.\<close>

definition no_db_lib :: library where
  "no_db_lib = ref_lib\<lparr>ArticleDB_init := (\<lambda>domain_endings author. Inl (LibraryError ''no database''))\<rparr>"

text \<open>A dataset with no rows, on which the split of the instance raises.\<close>

definition empty_articles :: ArticleDB where
  "empty_articles = ref_articles\<lparr>db_X := [], db_y := []\<rparr>"

section \<open>Facts about the top-10 selection\<close>

lemma normalize_kth_10:
  "normalize_kth sz n (- 10) = (if sz \<noteq> 0 \<and> n < 10 then Inl ValueError else Inr (n - 10))"
  by (auto simp: normalize_kth_def Let_def nat_diff_distrib')

lemma partitioned_length: "partitioned_at v k p \<Longrightarrow> length p = length v"
  unfolding partitioned_at_def by (metis length_sort length_upt diff_zero)

lemma partitioned_set: "partitioned_at v k p \<Longrightarrow> set p = {0..<length v}"
  unfolding partitioned_at_def by (metis set_sort set_upt)

lemma partitioned_distinct: "partitioned_at v k p \<Longrightarrow> distinct p"
  unfolding partitioned_at_def by (metis distinct_sort distinct_upt)

lemma top_10_vars_Array1:
  assumes "introselect_ok L" and "10 \<le> length v"
  shows "top_10_vars L (Array1 v)
           = Inr (Ix1 (drop (length v - 10) (introselect L v (length v - 10))))"
proof -
  have "length v - 10 < length v" using assms(2) by simp
  then have "partitioned_at v (length v - 10) (introselect L v (length v - 10))"
    using assms(1) by (simp add: introselect_ok_def)
  then have "length (introselect L v (length v - 10)) = length v"
    by (rule partitioned_length)
  moreover have "v \<noteq> []" using assms(2) by auto
  ultimately show ?thesis
    using assms(2) by (simp add: top_10_vars_def normalize_kth_10)
qed

lemma top_10_cols_props:
  assumes "introselect_ok L" and "10 \<le> length v"
    and "cols = drop (length v - 10) (introselect L v (length v - 10))"
  shows "length cols = 10" and "distinct cols" and "\<forall>c \<in> set cols. c < length v"
    and "\<forall>c \<in> set cols. \<forall>j < length v. j \<notin> set cols \<longrightarrow> v ! j \<le> v ! c"
    and "\<forall>c \<in> set cols. v ! (cols ! 0) \<le> v ! c"
proof -
  let ?k = "length v - 10"
  let ?p = "introselect L v ?k"
  have k: "?k < length v" using assms(2) by simp
  then have part: "partitioned_at v ?k ?p"
    using assms(1) by (simp add: introselect_ok_def)
  have len: "length ?p = length v" using part by (rule partitioned_length)
  show "length cols = 10" using assms(2,3) len by simp
  show "distinct cols" using partitioned_distinct[OF part] assms(3) by simp
  have sub: "set cols \<subseteq> set ?p" using assms(3) by (simp add: set_drop_subset)
  then show "\<forall>c \<in> set cols. c < length v" using partitioned_set[OF part] by auto
  have lo: "\<forall>a \<in> set (take ?k ?p). v ! a \<le> v ! (?p ! ?k)"
    and hi: "\<forall>b \<in> set cols. v ! (?p ! ?k) \<le> v ! b"
    using part assms(3) by (simp_all add: partitioned_at_def)
  show "\<forall>c \<in> set cols. \<forall>j < length v. j \<notin> set cols \<longrightarrow> v ! j \<le> v ! c"
  proof (intro ballI allI impI)
    fix c j assume c: "c \<in> set cols" and j: "j < length v" and nj: "j \<notin> set cols"
    have "j \<in> set ?p" using partitioned_set[OF part] j by simp
    then have "j \<in> set (take ?k ?p) \<union> set (drop ?k ?p)"
      by (metis append_take_drop_id set_append)
    then have "j \<in> set (take ?k ?p)" using nj assms(3) by simp
    then have "v ! j \<le> v ! (?p ! ?k)" using lo by simp
    also have "\<dots> \<le> v ! c" using hi c by simp
    finally show "v ! j \<le> v ! c" .
  qed
  have "cols ! 0 = ?p ! ?k" using assms(3) len k by (simp add: hd_drop_conv_nth)
  then show "\<forall>c \<in> set cols. v ! (cols ! 0) \<le> v ! c" using hi by simp
qed

lemma print_features_Ix1:
  assumes "\<forall>r \<in> set ranks. r < length cols"
    and "\<forall>c \<in> set cols. c < length v \<and> column_number data c \<noteq> None"
  shows "print_features data (Array1 v) (Ix1 cols) ranks w
           = (Inr (), w\<lparr>stdout := stdout w @
                 map (\<lambda>rank. Feature_line (rank + 1) (the (column_number data (cols ! rank)))
                                (PyFloat (v ! (cols ! rank)))) ranks\<rparr>)"
  using assms(1)
proof (induction ranks arbitrary: w)
  case Nil
  then show ?case by simp
next
  case (Cons r ranks)
  then have r: "r < length cols" by simp
  then have "cols ! r \<in> set cols" by simp
  then have c: "cols ! r < length v" and "column_number data (cols ! r) \<noteq> None"
    using assms(2) by auto
  then obtain name where n: "column_number data (cols ! r) = Some name" by auto
  show ?case using Cons r c n by (simp add: print_def)
qed

text \<open>Index selection by a stable sort meets the documented contract.\<close>

lemma argsort_partitioned:
  assumes "k < length v"
  shows "partitioned_at v k (argsort v k)"
proof -
  let ?f = "\<lambda>i. v ! i"
  let ?q = "sort_key ?f [0..<length v]"
  have m: "mset ?q = mset [0..<length v]" by simp
  have s: "sorted (map ?f ?q)" by (rule sorted_sort_key)
  have len: "length ?q = length v" by simp
  have 1: "sort ?q = [0..<length v]"
    by (rule properties_for_sort) (simp_all add: m)
  have 2: "\<forall>a \<in> set (take k ?q). v ! a \<le> v ! (?q ! k)"
  proof
    fix a assume "a \<in> set (take k ?q)"
    then obtain i where i: "i < k" "a = ?q ! i"
      using assms len by (auto simp: in_set_conv_nth)
    have "map ?f ?q ! i \<le> map ?f ?q ! k"
      using s i(1) assms len by (intro sorted_nth_mono) simp_all
    then show "v ! a \<le> v ! (?q ! k)" using i assms len by simp
  qed
  have 3: "\<forall>b \<in> set (drop k ?q). v ! (?q ! k) \<le> v ! b"
  proof
    fix b assume "b \<in> set (drop k ?q)"
    then obtain i where i: "k \<le> i" "i < length ?q" "b = ?q ! i"
      by (auto simp: in_set_conv_nth) (metis le_add1 add.commute less_diff_conv)
    have "map ?f ?q ! k \<le> map ?f ?q ! i"
      using s i(1,2) by (intro sorted_nth_mono) simp_all
    then show "v ! (?q ! k) \<le> v ! b" using i assms len by simp
  qed
  show ?thesis unfolding partitioned_at_def argsort_def using 1 2 3 by blast
qed

lemma ref_lib_introselect_ok: "introselect_ok ref_lib"
  by (simp add: introselect_ok_def ref_lib_def lib_with_def argsort_partitioned)

text \<open>
  Whatever the selection kernel does inside the two parts, the column printed with rank 1
  is the pivot of the partition: it has the least score of the ten.
\<close>

lemma rank_1_is_least_of_top_10:
  assumes "introselect_ok L" and "10 \<le> length v"
    and "top_10_vars L (Array1 v) = Inr (Ix1 cols)"
  shows "\<forall>c \<in> set cols. v ! (cols ! 0) \<le> v ! c"
proof -
  have "cols = drop (length v - 10) (introselect L v (length v - 10))"
    using assms(3) top_10_vars_Array1[OF assms(1,2)] by simp
  then show ?thesis using top_10_cols_props(5)[OF assms(1,2)] by blast
qed

section \<open>Facts about the trainer\<close>

text \<open>When the three library calls return, the trainer has printed its three lines and runs the importance step.\<close>

lemma train_model_to_importance:
  assumes "train_test_split L (rng w) (db_X data) (db_y data) 0.2 None
             = Inr ((X_train, X_test, y_train, y_test), r1)"
    and "GridSearchCV_fit L r1 (instantiate k) grid X_train y_train = Inr (model, r2)"
    and "score L model X_test y_test = Inr accuracy"
  shows "train_model L data k grid w =
     (case report_importance L data (best_estimator model)
             (w\<lparr>rng := r2,
                calls := calls w @
                  [Call_train_model data k grid,
                   Call_train_test_split (db_X data) (db_y data) 0.2 None,
                   Call_GridSearchCV_fit (instantiate k) grid X_train y_train]
                  @ map Call_estimator_fit (estimator_fits model) @ [Call_score X_test y_test],
                stdout := stdout w @
                  [Header (learner_repr L (instantiate k)) (best_params model),
                   Val_accuracy (best_score model), Test_accuracy accuracy]\<rparr>) of
        (res, w8) \<Rightarrow> (res, data, w8))"
  using assms by (simp add: train_model_def Let_def log_call_def log_calls_def print_def)

lemma report_importance_short:
  assumes "variable_importance est = Array1 v" and "length v < 10" and "v \<noteq> []"
  shows "report_importance L data est w = (Inl ValueError, w)"
  using assms by (simp add: report_importance_def top_10_vars_def normalize_kth_10)

lemma upt_10: "[0..<10] = 0 # [1..<10]"
  by (simp add: upt_rec)

lemma report_importance_empty:
  assumes "variable_importance est = Array1 []"
  shows "report_importance L data est w
           = (Inl IndexError, w\<lparr>stdout := stdout w @ [Most_important]\<rparr>)"
  using assms
  by (simp add: report_importance_def top_10_vars_def normalize_kth_10 upt_10 print_def)

lemma report_importance_None:
  assumes "variable_importance est = PyNone"
  shows "report_importance L data est w = (Inl ValueError, w)"
  using assms by (simp add: report_importance_def top_10_vars_def normalize_kth_10)

lemma top_10_vars_Array2:
  "top_10_vars L (Array2 n rows) =
     (if rows \<noteq> [] \<and> 0 < n \<and> n < 10 then Inl ValueError
      else Inr (Ix2 (drop (length rows - 10)
                       (if rows = [] \<or> n = 0 then map (\<lambda>r. []) rows
                        else map (\<lambda>r. introselect L r (n - 10)) rows))))"
  by (auto simp: top_10_vars_def normalize_kth_10)

lemma report_importance_Array2:
  assumes "variable_importance est = Array2 n rows"
  shows "report_importance L data est w =
     (if rows \<noteq> [] \<and> 0 < n \<and> n < 10 then (Inl ValueError, w)
      else (Inl (if rows = [] then IndexError else TypeError),
            w\<lparr>stdout := stdout w @ [Most_important]\<rparr>))"
proof (cases "rows \<noteq> [] \<and> 0 < n \<and> n < 10")
  case True
  then show ?thesis using assms by (simp add: report_importance_def top_10_vars_Array2)
next
  case False
  define t where "t = drop (length rows - 10)
                       (if rows = [] \<or> n = 0 then map (\<lambda>r. []) rows
                        else map (\<lambda>r. introselect L r (n - 10)) rows)"
  have top: "top_10_vars L (Array2 n rows) = Inr (Ix2 t)"
    using False unfolding t_def top_10_vars_Array2 by simp
  have len: "(0 < length t) = (rows \<noteq> [])" unfolding t_def by auto
  have run: "report_importance L data est w
               = print_features data (Array2 n rows) (Ix2 t) (0 # [1..<10])
                   (print Most_important w)"
    by (simp add: report_importance_def assms top upt_10)
  show ?thesis
  proof (cases "rows = []")
    case True
    then have "\<not> 0 < length t" using len by simp
    then show ?thesis unfolding run using False True by (simp add: print_def)
  next
    case ne: False
    then have "0 < length t" using len by simp
    then show ?thesis unfolding run using False ne by (simp add: print_def)
  qed
qed

lemma lib_split:
  "train_test_split (lib_with a) (rng (start s)) (db_X ref_articles) (db_y ref_articles) 0.2 None
     = Inr ((take 8 (db_X ref_articles), drop 8 (db_X ref_articles),
             take 8 (db_y ref_articles), drop 8 (db_y ref_articles)), Suc s)"
  by (simp add: lib_with_def ref_split_def ref_articles_def start_def Let_def)

lemma lib_split_any:
  "train_test_split (lib_with a) r (db_X ref_articles) (db_y ref_articles) 0.2 None
     = Inr ((take 8 (db_X ref_articles), drop 8 (db_X ref_articles),
             take 8 (db_y ref_articles), drop 8 (db_y ref_articles)), Suc r)"
  by (simp add: lib_with_def ref_split_def ref_articles_def Let_def)

lemma ParameterGrid_empty: "ParameterGrid [] = [[]]"
  by (simp add: ParameterGrid_def)


lemma lib_fit_empty:
  "GridSearchCV_fit (lib_with a) r (instantiate k) [] X_train y_train
     = Inr (\<lparr>best_params = [], best_score = 1, best_estimator = a (instantiate k),
             cv_results_params = [[]], n_splits = 5\<rparr>, Suc r)"
  by (simp add: lib_with_def ref_fit_def ParameterGrid_empty instantiate_def)


lemma lib_score: "score (lib_with a) model X_test y_test = Inr 1"
  by (simp add: lib_with_def)

lemma lib_learner_repr: "learner_repr (lib_with a) (instantiate k) = learner_name k"
  by (cases k) (simp_all add: learner_repr_def lib_with_def instantiate_def learner_name_def
      py_find_def py_slice_to_def)

section \<open>C1: the top-10 feature selection\<close>

text \<open>
  So when the scores are pairwise different, no selection kernel that meets the contract
  leaves the ten columns in descending order.
\<close>

lemma partition_order_not_descending:
  assumes "introselect_ok L" and "10 \<le> length v" and "distinct v"
    and "top_10_vars L (Array1 v) = Inr (Ix1 cols)"
  shows "\<not> ranked_descending v cols"
proof
  assume r: "ranked_descending v cols"
  have c: "cols = drop (length v - 10) (introselect L v (length v - 10))"
    using assms(4) top_10_vars_Array1[OF assms(1,2)] by simp
  note props = top_10_cols_props[OF assms(1,2) c]
  have in0: "cols ! 0 \<in> set cols" and in1: "cols ! 1 \<in> set cols"
    using props(1) by simp_all
  have ne: "cols ! 0 \<noteq> cols ! 1"
    using props(1,2) by (simp add: nth_eq_iff_index_eq)
  have "v ! (cols ! 0) \<noteq> v ! (cols ! 1)"
    using assms(3) ne props(3) in0 in1 by (simp add: nth_eq_iff_index_eq)
  moreover have "v ! (cols ! 0) \<le> v ! (cols ! 1)" using props(5) in1 by blast
  ultimately have less: "v ! (cols ! 0) < v ! (cols ! 1)" by simp
  have "v ! (cols ! 1) < v ! (cols ! 0) \<or> (v ! (cols ! 0) = v ! (cols ! 1) \<and> cols ! 0 < cols ! 1)"
    using r props(1) unfolding ranked_descending_def
    by (auto dest: sorted_wrt_nth_less[where i=0 and j=1])
  then show False using less by auto
qed

text \<open>
  What the selection does get right: for a one-dimensional importance vector with at least
  ten entries whose columns all have a name, line 30 selects exactly ten distinct column
  indices, all in range, whose scores are at least every score left out, and the importance
  step prints the caption and one line per selected column, numbered 1 to 10 in the order
  of the selected index array.
\<close>

lemma top_10_selection:
  assumes "introselect_ok L" and "10 \<le> length v"
    and "\<forall>i < length v. column_number data i \<noteq> None"
    and "variable_importance est = Array1 v"
  shows "\<exists>cols. top_10_vars L (Array1 v) = Inr (Ix1 cols)
           \<and> length cols = 10 \<and> distinct cols \<and> (\<forall>c \<in> set cols. c < length v)
           \<and> (\<forall>c \<in> set cols. \<forall>j < length v. j \<notin> set cols \<longrightarrow> v ! j \<le> v ! c)
           \<and> report_importance L data est w
               = (Inr (), w\<lparr>stdout := stdout w @ Most_important #
                    map (\<lambda>rank. Feature_line (rank + 1) (the (column_number data (cols ! rank)))
                                   (PyFloat (v ! (cols ! rank)))) [0..<10]\<rparr>)"
proof -
  define cols where "cols = drop (length v - 10) (introselect L v (length v - 10))"
  note props = top_10_cols_props[OF assms(1,2) cols_def]
  have top: "top_10_vars L (Array1 v) = Inr (Ix1 cols)"
    unfolding cols_def by (rule top_10_vars_Array1[OF assms(1,2)])
  have ranks: "\<forall>r \<in> set [0..<10]. r < length cols" using props(1) by simp
  have named: "\<forall>c \<in> set cols. c < length v \<and> column_number data c \<noteq> None"
    using props(3) assms(3) by blast
  have "report_importance L data est w
          = print_features data (Array1 v) (Ix1 cols) [0..<10] (print Most_important w)"
    by (simp add: report_importance_def assms(4) top)
  also have "\<dots> = (Inr (), w\<lparr>stdout := stdout w @ Most_important #
                    map (\<lambda>rank. Feature_line (rank + 1) (the (column_number data (cols ! rank)))
                                   (PyFloat (v ! (cols ! rank)))) [0..<10]\<rparr>)"
    unfolding print_features_Ix1[OF ranks named] by (simp add: print_def)
  finally show ?thesis using top props(1,2,3,4) by blast
qed

lemma signed_example_nth:
  assumes "1 \<le> i" and "i \<le> 10"
  shows "signed_example ! i = real i"
proof -
  have "\<forall>j \<in> set [1..<11]. signed_example ! j = real j"
    by (simp add: upt_rec signed_example_def)
  then show ?thesis using assms by simp
qed

text \<open>
  On \<open>signed_example\<close> every selection kernel that meets the contract selects the columns
  1 to 10 and leaves column 1, the least of their scores, at the front.
\<close>

lemma signed_example_top_10:
  assumes "introselect_ok L"
    and "top_10_vars L (Array1 signed_example) = Inr (Ix1 cols)"
  shows "length cols = 10" and "distinct cols" and "0 \<notin> set cols" and "set cols = {1..10}"
    and "cols ! 0 = 1"
proof -
  have len: "10 \<le> length signed_example" by (simp add: signed_example_def)
  have c: "cols = drop (length signed_example - 10)
                    (introselect L signed_example (length signed_example - 10))"
    using assms(2) top_10_vars_Array1[OF assms(1) len] by simp
  note props = top_10_cols_props[OF assms(1) len c]
  show l: "length cols = 10" and d: "distinct cols" by (rule props(1), rule props(2))
  have card: "card (set cols) = 10" using props(1,2) by (simp add: distinct_card)
  have sub: "set cols \<subseteq> {0..<11}" using props(3) by (auto simp: signed_example_def)
  show not0: "0 \<notin> set cols"
  proof
    assume in0: "0 \<in> set cols"
    have "set cols \<noteq> {0..<11}" using card by auto
    then have "\<exists>j. j < 11 \<and> j \<notin> set cols" using sub by fastforce
    then obtain j where j: "j < 11" "j \<notin> set cols" by blast
    have j0: "j \<noteq> 0" using in0 j(2) by metis
    have jl: "j < length signed_example" using j(1) by (simp add: signed_example_def)
    have "signed_example ! j = real j" using j(1) j0 by (intro signed_example_nth) simp_all
    then have pos: "0 < signed_example ! j" using j0 by simp
    have "signed_example ! j \<le> signed_example ! 0" using props(4) in0 jl j(2) by blast
    then show False using pos by (simp add: signed_example_def)
  qed
  have "set cols \<subseteq> {1..10}"
  proof
    fix c assume c: "c \<in> set cols"
    have "c < 11" using c sub by auto
    moreover have "c \<noteq> 0" using c not0 by metis
    ultimately show "c \<in> {1..10}" by auto
  qed
  moreover have "card {1..10::nat} = 10" by simp
  ultimately show eq: "set cols = {1..10}"
    using card by (metis card_subset_eq finite_atLeastAtMost)
  have in0: "cols ! 0 \<in> {1..10}" using eq l by (metis nth_mem zero_less_numeral)
  have "(1::nat) \<in> set cols" using eq by simp
  then have "signed_example ! (cols ! 0) \<le> signed_example ! 1" using props(5) by blast
  moreover have "signed_example ! (cols ! 0) = real (cols ! 0)"
    using in0 by (intro signed_example_nth) simp_all
  moreover have "signed_example ! 1 = 1" by (simp add: signed_example_def)
  ultimately have "cols ! 0 \<le> 1" by simp
  then show "cols ! 0 = 1" using in0 by simp
qed

text \<open>
  C1. The claim fails on the code. For the importance vector \<open>signed_example\<close> (eleven
  features, no two scores equal) and a dataset that names the eleven columns, whatever order
  \<open>np.argpartition\<close> leaves inside its two parts, the ten columns 1 to 10 are selected,
  the importance step completes, and the line it prints with rank 1, right after the
  caption, is column 1 with score 1: the least of the ten scores, where a descending
  ranking puts score 10. The selected columns are not in descending order of score.
\<close>

theorem top_10_printed_unranked:
  assumes "introselect_ok L"
    and "\<forall>i < length signed_example. column_number data i \<noteq> None"
    and "variable_importance est = Array1 signed_example"
  shows "\<exists>cols. top_10_vars L (Array1 signed_example) = Inr (Ix1 cols)
           \<and> set cols = {1..10} \<and> cols ! 0 = 1
           \<and> \<not> ranked_descending signed_example cols
           \<and> fst (report_importance L data est w) = Inr ()
           \<and> stdout (snd (report_importance L data est w)) ! length (stdout w) = Most_important
           \<and> stdout (snd (report_importance L data est w)) ! Suc (length (stdout w))
               = Feature_line 1 (the (column_number data 1)) (PyFloat 1)"
proof -
  have len: "10 \<le> length signed_example" and dist: "distinct signed_example"
    by (simp_all add: signed_example_def)
  obtain cols where top: "top_10_vars L (Array1 signed_example) = Inr (Ix1 cols)"
    and run: "report_importance L data est w
               = (Inr (), w\<lparr>stdout := stdout w @ Most_important #
                    map (\<lambda>rank. Feature_line (rank + 1) (the (column_number data (cols ! rank)))
                                   (PyFloat (signed_example ! (cols ! rank)))) [0..<10]\<rparr>)"
    using top_10_selection[OF assms(1) len assms(2,3), of w] by blast
  note s = signed_example_top_10[OF assms(1) top]
  have nr: "\<not> ranked_descending signed_example cols"
    by (rule partition_order_not_descending[OF assms(1) len dist top])
  have one: "signed_example ! Suc 0 = 1" by (simp add: signed_example_def)
  have l0: "stdout (snd (report_importance L data est w)) ! length (stdout w) = Most_important"
    by (simp add: run nth_append)
  have l1: "stdout (snd (report_importance L data est w)) ! Suc (length (stdout w))
               = Feature_line 1 (the (column_number data 1)) (PyFloat 1)"
    using s(5) by (simp add: run nth_append upt_10 one)
  show ?thesis using top s(4,5) nr l0 l1 by (auto simp: run)
qed

theorem top_10_printed_unranked_witness:
  "introselect_ok ref_lib
   \<and> variable_importance signed_estimator = Array1 signed_example
   \<and> fst (report_importance ref_lib ref_articles signed_estimator (start 0)) = Inr ()
   \<and> stdout (snd (report_importance ref_lib ref_articles signed_estimator (start 0))) ! 1
       = Feature_line 1 ''ff'' (PyFloat 1)"
proof -
  have named: "\<forall>i < length signed_example. column_number ref_articles i \<noteq> None"
    by (simp add: signed_example_def ref_articles_def)
  have vi: "variable_importance signed_estimator = Array1 signed_example"
    by (simp add: variable_importance_def signed_estimator_def)
  have name: "the (column_number ref_articles 1) = ''ff''"
    by (simp add: ref_articles_def)
  show ?thesis
    using top_10_printed_unranked[OF ref_lib_introselect_ok named vi, of "start 0"]
      ref_lib_introselect_ok vi name
    by (auto simp: start_def)
qed

section \<open>C8: fewer than ten features\<close>

text \<open>
  C8, as amended. When the importance vector of the best estimator has between one and
  nine entries, \<open>np.argpartition\<close> with \<open>kth = -10\<close> raises \<open>ValueError\<close> and the trainer
  ends with that exception after its three accuracy lines. When the vector is empty,
  \<open>np.argpartition\<close> does not raise: it returns an empty index array, the caption is
  printed, and \<open>top_10_vars[0]\<close> raises \<open>IndexError\<close>. In both cases the trainer ends with
  an exception and prints no feature line, and the importance step completes only for
  vectors of at least ten entries.
\<close>

theorem fewer_than_10_features:
  assumes "train_test_split L (rng w) (db_X data) (db_y data) 0.2 None
             = Inr ((X_train, X_test, y_train, y_test), r1)"
    and "GridSearchCV_fit L r1 (instantiate k) grid X_train y_train = Inr (model, r2)"
    and "score L model X_test y_test = Inr accuracy"
    and "variable_importance (best_estimator model) = Array1 v"
    and "length v < 10"
  shows "(v \<noteq> [] \<longrightarrow>
           top_10_vars L (Array1 v) = Inl ValueError
           \<and> fst (train_model L data k grid w) = Inl ValueError
           \<and> stdout (snd (snd (train_model L data k grid w)))
               = stdout w @ [Header (learner_repr L (instantiate k)) (best_params model),
                             Val_accuracy (best_score model), Test_accuracy accuracy])
    \<and> (v = [] \<longrightarrow>
           top_10_vars L (Array1 v) = Inr (Ix1 [])
           \<and> fst (train_model L data k grid w) = Inl IndexError
           \<and> stdout (snd (snd (train_model L data k grid w)))
               = stdout w @ [Header (learner_repr L (instantiate k)) (best_params model),
                             Val_accuracy (best_score model), Test_accuracy accuracy,
                             Most_important])
    \<and> filter is_feature_line (stdout (snd (snd (train_model L data k grid w))))
        = filter is_feature_line (stdout w)
    \<and> (\<forall>est u w'. variable_importance est = Array1 u
           \<and> fst (report_importance L data est w') = Inr () \<longrightarrow> 10 \<le> length u)"
proof -
  have short: "v \<noteq> [] \<longrightarrow>
           top_10_vars L (Array1 v) = Inl ValueError
           \<and> fst (train_model L data k grid w) = Inl ValueError
           \<and> stdout (snd (snd (train_model L data k grid w)))
               = stdout w @ [Header (learner_repr L (instantiate k)) (best_params model),
                             Val_accuracy (best_score model), Test_accuracy accuracy]"
  proof
    assume ne: "v \<noteq> []"
    have 1: "top_10_vars L (Array1 v) = Inl ValueError"
      using assms(5) ne by (simp add: top_10_vars_def normalize_kth_10)
    show "top_10_vars L (Array1 v) = Inl ValueError
           \<and> fst (train_model L data k grid w) = Inl ValueError
           \<and> stdout (snd (snd (train_model L data k grid w)))
               = stdout w @ [Header (learner_repr L (instantiate k)) (best_params model),
                             Val_accuracy (best_score model), Test_accuracy accuracy]"
      unfolding train_model_to_importance[OF assms(1,2,3)]
        report_importance_short[OF assms(4,5) ne]
      using 1 by simp
  qed
  have empty: "v = [] \<longrightarrow>
           top_10_vars L (Array1 v) = Inr (Ix1 [])
           \<and> fst (train_model L data k grid w) = Inl IndexError
           \<and> stdout (snd (snd (train_model L data k grid w)))
               = stdout w @ [Header (learner_repr L (instantiate k)) (best_params model),
                             Val_accuracy (best_score model), Test_accuracy accuracy,
                             Most_important]"
  proof
    assume e: "v = []"
    have 1: "top_10_vars L (Array1 v) = Inr (Ix1 [])"
      using e by (simp add: top_10_vars_def normalize_kth_10)
    have vi: "variable_importance (best_estimator model) = Array1 []"
      using assms(4) e by simp
    show "top_10_vars L (Array1 v) = Inr (Ix1 [])
           \<and> fst (train_model L data k grid w) = Inl IndexError
           \<and> stdout (snd (snd (train_model L data k grid w)))
               = stdout w @ [Header (learner_repr L (instantiate k)) (best_params model),
                             Val_accuracy (best_score model), Test_accuracy accuracy,
                             Most_important]"
      unfolding train_model_to_importance[OF assms(1,2,3)] report_importance_empty[OF vi]
      using 1 by simp
  qed
  have nolines: "filter is_feature_line (stdout (snd (snd (train_model L data k grid w))))
        = filter is_feature_line (stdout w)"
    using short empty by (cases "v = []") simp_all
  have pre: "\<forall>est u w'. variable_importance est = Array1 u
           \<and> fst (report_importance L data est w') = Inr () \<longrightarrow> 10 \<le> length u"
  proof (intro allI impI, elim conjE)
    fix est u w'
    assume vi: "variable_importance est = Array1 u"
      and ok: "fst (report_importance L data est w') = Inr ()"
    show "10 \<le> length u"
    proof (rule ccontr)
      assume "\<not> 10 \<le> length u"
      then have lt: "length u < 10" by simp
      show False
      proof (cases "u = []")
        case True
        then show ?thesis using ok report_importance_empty[of est L data w'] vi by simp
      next
        case False
        then show ?thesis using ok report_importance_short[OF vi lt False, of L data w'] by simp
      qed
    qed
  qed
  show ?thesis using short empty nolines pre by blast
qed

theorem fewer_than_10_features_witness:
  "length [1, 2, 3 :: real] < 10
   \<and> fst (train_model (lib_with short_attrs) ref_articles DecisionTreeClassifier [] (start 0))
       = Inl ValueError
   \<and> stdout (snd (snd (train_model (lib_with short_attrs) ref_articles DecisionTreeClassifier []
        (start 0))))
       = [Header ''DecisionTreeClassifier'' [], Val_accuracy 1, Test_accuracy 1]
   \<and> fst (train_model (lib_with empty_attrs) ref_articles DecisionTreeClassifier [] (start 0))
       = Inl IndexError"
proof -
  have vi: "variable_importance (best_estimator
              \<lparr>best_params = [], best_score = 1,
                 best_estimator = short_attrs (instantiate DecisionTreeClassifier),
                 cv_results_params = [[]], n_splits = 5\<rparr>)
            = Array1 [1, 2, 3]"
    by (simp add: variable_importance_def short_attrs_def instantiate_def)
  have vi0: "variable_importance (best_estimator
              \<lparr>best_params = [], best_score = 1,
                 best_estimator = empty_attrs (instantiate DecisionTreeClassifier),
                 cv_results_params = [[]], n_splits = 5\<rparr>)
            = Array1 []"
    by (simp add: variable_importance_def empty_attrs_def instantiate_def)
  have len: "length [1, 2, 3 :: real] < 10" and len0: "length ([] :: real list) < 10" by simp_all
  have a: "fst (train_model (lib_with short_attrs) ref_articles DecisionTreeClassifier []
                  (start 0)) = Inl ValueError
     \<and> stdout (snd (snd (train_model (lib_with short_attrs) ref_articles DecisionTreeClassifier []
          (start 0))))
       = [Header ''DecisionTreeClassifier'' [], Val_accuracy 1, Test_accuracy 1]"
    using fewer_than_10_features[OF lib_split[of short_attrs 0]
        lib_fit_empty[of short_attrs _ DecisionTreeClassifier] lib_score[of short_attrs] vi len]
    by (simp add: lib_learner_repr learner_name_def start_def)
  have b: "fst (train_model (lib_with empty_attrs) ref_articles DecisionTreeClassifier []
                  (start 0)) = Inl IndexError"
    using fewer_than_10_features[OF lib_split[of empty_attrs 0]
        lib_fit_empty[of empty_attrs _ DecisionTreeClassifier] lib_score[of empty_attrs] vi0 len0]
    by simp
  show ?thesis using a b by simp
qed

text \<open>
  The claim as stated fails for an empty importance vector: there \<open>np.argpartition\<close>
  raises nothing, and the trainer prints the caption before it ends with \<open>IndexError\<close>.
\<close>

theorem fewer_than_10_features_counterexample:
  "length ([] :: real list) < 10
   \<and> top_10_vars (lib_with empty_attrs) (Array1 []) = Inr (Ix1 [])
   \<and> fst (train_model (lib_with empty_attrs) ref_articles DecisionTreeClassifier [] (start 0))
       = Inl IndexError
   \<and> stdout (snd (snd (train_model (lib_with empty_attrs) ref_articles DecisionTreeClassifier []
        (start 0))))
       = [Header ''DecisionTreeClassifier'' [], Val_accuracy 1, Test_accuracy 1, Most_important]"
proof -
  let ?model = "\<lparr>best_params = [], best_score = 1,
                 best_estimator = empty_attrs (instantiate DecisionTreeClassifier),
                 cv_results_params = [[]], n_splits = 5\<rparr>"
  have vi0: "variable_importance (best_estimator ?model) = Array1 []"
    by (simp add: variable_importance_def empty_attrs_def instantiate_def)
  have top: "top_10_vars (lib_with empty_attrs) (Array1 []) = Inr (Ix1 [])"
    by (simp add: top_10_vars_def normalize_kth_10)
  have run: "train_model (lib_with empty_attrs) ref_articles DecisionTreeClassifier [] (start 0)
      = (Inl IndexError, ref_articles,
         (start 0)\<lparr>rng := Suc (Suc 0),
           calls := calls (start 0) @
             [Call_train_model ref_articles DecisionTreeClassifier [],
              Call_train_test_split (db_X ref_articles) (db_y ref_articles) 0.2 None,
              Call_GridSearchCV_fit (instantiate DecisionTreeClassifier) []
                (take 8 (db_X ref_articles)) (take 8 (db_y ref_articles))]
             @ map Call_estimator_fit (estimator_fits ?model)
             @ [Call_score (drop 8 (db_X ref_articles)) (drop 8 (db_y ref_articles))],
           stdout := stdout (start 0) @
             [Header (learner_repr (lib_with empty_attrs) (instantiate DecisionTreeClassifier))
                (best_params ?model),
              Val_accuracy (best_score ?model), Test_accuracy 1, Most_important]\<rparr>)"
    unfolding train_model_to_importance[OF lib_split[of empty_attrs 0]
        lib_fit_empty[of empty_attrs _ DecisionTreeClassifier] lib_score[of empty_attrs]]
      report_importance_empty[OF vi0]
    by simp
  have f: "fst (train_model (lib_with empty_attrs) ref_articles DecisionTreeClassifier []
                  (start 0)) = Inl IndexError"
    unfolding run by simp
  have s: "stdout (snd (snd (train_model (lib_with empty_attrs) ref_articles
                  DecisionTreeClassifier [] (start 0))))
       = [Header ''DecisionTreeClassifier'' [], Val_accuracy 1, Test_accuracy 1, Most_important]"
    unfolding run by (simp add: lib_learner_repr learner_name_def start_def)
  show ?thesis using top f s by simp
qed

section \<open>C2: what the importance extractor returns\<close>

text \<open>
  C2. \<open>variable_importance\<close> returns the value of \<open>coef_\<close> when the estimator has that
  attribute; otherwise the value of \<open>feature_importances_\<close> when it has that one; with
  neither it returns \<open>None\<close>, and then the importance step of the trainer raises
  (\<open>np.argpartition\<close> on \<open>None\<close>) and prints no ranking: the trainer ends with that
  exception after its three accuracy lines.
\<close>

theorem variable_importance_cases:
  "(coef e = Some c \<longrightarrow> variable_importance e = c)
   \<and> (coef e = None \<and> feature_importances e = Some f \<longrightarrow> variable_importance e = f)
   \<and> (coef e = None \<and> feature_importances e = None \<longrightarrow>
        variable_importance e = PyNone
        \<and> report_importance L data e w = (Inl ValueError, w))
   \<and> (train_test_split L (rng w) (db_X data) (db_y data) 0.2 None
          = Inr ((X_train, X_test, y_train, y_test), r1)
        \<and> GridSearchCV_fit L r1 (instantiate k) grid X_train y_train = Inr (model, r2)
        \<and> score L model X_test y_test = Inr accuracy
        \<and> coef (best_estimator model) = None
        \<and> feature_importances (best_estimator model) = None \<longrightarrow>
        fst (train_model L data k grid w) = Inl ValueError
        \<and> stdout (snd (snd (train_model L data k grid w)))
            = stdout w @ [Header (learner_repr L (instantiate k)) (best_params model),
                          Val_accuracy (best_score model), Test_accuracy accuracy])"
proof -
  have none: "variable_importance e' = PyNone"
    if "coef e' = None" and "feature_importances e' = None" for e'
    using that by (simp add: variable_importance_def)
  have 1: "coef e = Some c \<longrightarrow> variable_importance e = c"
    by (simp add: variable_importance_def)
  have 2: "coef e = None \<and> feature_importances e = Some f \<longrightarrow> variable_importance e = f"
    by (simp add: variable_importance_def)
  have 3: "coef e = None \<and> feature_importances e = None \<longrightarrow>
        variable_importance e = PyNone \<and> report_importance L data e w = (Inl ValueError, w)"
    using none[of e] report_importance_None[of e] by blast
  have 4: "train_test_split L (rng w) (db_X data) (db_y data) 0.2 None
          = Inr ((X_train, X_test, y_train, y_test), r1)
        \<and> GridSearchCV_fit L r1 (instantiate k) grid X_train y_train = Inr (model, r2)
        \<and> score L model X_test y_test = Inr accuracy
        \<and> coef (best_estimator model) = None
        \<and> feature_importances (best_estimator model) = None \<longrightarrow>
        fst (train_model L data k grid w) = Inl ValueError
        \<and> stdout (snd (snd (train_model L data k grid w)))
            = stdout w @ [Header (learner_repr L (instantiate k)) (best_params model),
                          Val_accuracy (best_score model), Test_accuracy accuracy]"
  proof (intro impI, elim conjE)
    assume a: "train_test_split L (rng w) (db_X data) (db_y data) 0.2 None
          = Inr ((X_train, X_test, y_train, y_test), r1)"
      "GridSearchCV_fit L r1 (instantiate k) grid X_train y_train = Inr (model, r2)"
      "score L model X_test y_test = Inr accuracy"
      and b: "coef (best_estimator model) = None"
        "feature_importances (best_estimator model) = None"
    show "fst (train_model L data k grid w) = Inl ValueError
        \<and> stdout (snd (snd (train_model L data k grid w)))
            = stdout w @ [Header (learner_repr L (instantiate k)) (best_params model),
                          Val_accuracy (best_score model), Test_accuracy accuracy]"
      unfolding train_model_to_importance[OF a]
        report_importance_None[OF none[OF b]] by simp
  qed
  show ?thesis using 1 2 3 4 by blast
qed

theorem variable_importance_cases_witness:
  "variable_importance ((instantiate LogisticRegression)
      \<lparr>coef := Some (Array1 ref_importances), feature_importances := Some (Array1 [1, 2, 3])\<rparr>)
     = Array1 ref_importances
   \<and> variable_importance ref_estimator = Array1 ref_importances
   \<and> variable_importance (instantiate MultinomialNB) = PyNone
   \<and> report_importance ref_lib ref_articles (instantiate MultinomialNB) (start 0)
       = (Inl ValueError, start 0)
   \<and> fst (train_model (lib_with (\<lambda>e. e)) ref_articles MultinomialNB [] (start 0))
       = Inl ValueError
   \<and> stdout (snd (snd (train_model (lib_with (\<lambda>e. e)) ref_articles MultinomialNB [] (start 0))))
       = [Header ''MultinomialNB'' [], Val_accuracy 1, Test_accuracy 1]"
proof -
  let ?e1 = "(instantiate LogisticRegression)
      \<lparr>coef := Some (Array1 ref_importances), feature_importances := Some (Array1 [1, 2, 3])\<rparr>"
  have a: "variable_importance ?e1 = Array1 ref_importances"
    using variable_importance_cases[of ?e1 "Array1 ref_importances"] by simp
  have b: "variable_importance ref_estimator = Array1 ref_importances"
    using variable_importance_cases[of ref_estimator _ "Array1 ref_importances"]
    by (simp add: ref_estimator_def instantiate_def)
  have c: "variable_importance (instantiate MultinomialNB) = PyNone
     \<and> report_importance ref_lib ref_articles (instantiate MultinomialNB) (start 0)
       = (Inl ValueError, start 0)"
    using variable_importance_cases[of "instantiate MultinomialNB" _ _ ref_lib ref_articles "start 0"]
    by (simp add: instantiate_def)
  let ?L = "lib_with (\<lambda>e. e)"
  let ?model = "\<lparr>best_params = [], best_score = 1, best_estimator = instantiate MultinomialNB,
                  cv_results_params = [[]], n_splits = 5\<rparr>"
  have prem: "train_test_split ?L (rng (start 0)) (db_X ref_articles) (db_y ref_articles) 0.2 None
          = Inr ((take 8 (db_X ref_articles), drop 8 (db_X ref_articles),
                  take 8 (db_y ref_articles), drop 8 (db_y ref_articles)), Suc 0)
        \<and> GridSearchCV_fit ?L (Suc 0) (instantiate MultinomialNB) []
             (take 8 (db_X ref_articles)) (take 8 (db_y ref_articles)) = Inr (?model, Suc (Suc 0))
        \<and> score ?L ?model (drop 8 (db_X ref_articles)) (drop 8 (db_y ref_articles)) = Inr 1
        \<and> coef (best_estimator ?model) = None
        \<and> feature_importances (best_estimator ?model) = None"
    using lib_split[of "\<lambda>e. e" 0] lib_fit_empty[of "\<lambda>e. e" "Suc 0" MultinomialNB]
      lib_score[of "\<lambda>e. e"]
    by (simp add: instantiate_def)
  have "fst (train_model ?L ref_articles MultinomialNB [] (start 0)) = Inl ValueError
     \<and> stdout (snd (snd (train_model ?L ref_articles MultinomialNB [] (start 0))))
         = stdout (start 0) @ [Header (learner_repr ?L (instantiate MultinomialNB))
                                 (best_params ?model),
                               Val_accuracy (best_score ?model), Test_accuracy 1]"
    using variable_importance_cases[of _ _ _ ?L ref_articles "start 0"
        "take 8 (db_X ref_articles)" "drop 8 (db_X ref_articles)"
        "take 8 (db_y ref_articles)" "drop 8 (db_y ref_articles)" "Suc 0" MultinomialNB "[]"
        ?model "Suc (Suc 0)" 1] prem
    by blast
  then have d: "fst (train_model ?L ref_articles MultinomialNB [] (start 0)) = Inl ValueError
   \<and> stdout (snd (snd (train_model ?L ref_articles MultinomialNB [] (start 0))))
       = [Header ''MultinomialNB'' [], Val_accuracy 1, Test_accuracy 1]"
    by (simp add: lib_learner_repr learner_name_def start_def)
  show ?thesis using a b c d by blast
qed

section \<open>C4: a two-dimensional coefficient array\<close>



section \<open>C3: ranking by the raw coefficient\<close>

lemma signed_example_positive:
  assumes "j < length signed_example" and "j \<noteq> 0"
  shows "0 < signed_example ! j" and "\<bar>signed_example ! j\<bar> < \<bar>signed_example ! 0\<bar>"
proof -
  have j: "1 \<le> j" "j \<le> 10" using assms by (simp_all add: signed_example_def)
  have "signed_example ! j = real j" using j by (rule signed_example_nth)
  then show "0 < signed_example ! j" and "\<bar>signed_example ! j\<bar> < \<bar>signed_example ! 0\<bar>"
    using j by (simp_all add: signed_example_def)
qed

lemma printed_scores_append:
  "printed_scores (xs @ ys) = printed_scores xs @ printed_scores ys"
  by (induction xs rule: printed_scores.induct) simp_all

lemma printed_scores_feature_lines:
  "printed_scores (map (\<lambda>r. Feature_line (f r) (g r) (h r)) rs) = map h rs"
  by (induction rs) simp_all

text \<open>
  C3. For an estimator with a coefficient vector, \<open>variable_importance\<close> hands the vector
  on as it is, and the ten columns the trainer chooses from it are those with the largest
  signed values: every chosen value is at least every value left out, with no absolute
  value and no normalisation. So for an estimator whose coefficients are \<open>signed_example\<close>,
  column 0, whose coefficient \<open>-100\<close> is the largest in magnitude, is left out, the ten
  columns with small positive coefficients are chosen, and the scores the trainer prints
  are exactly those ten raw values.
\<close>

theorem raw_score_ranking:
  assumes "introselect_ok L"
  shows "(\<forall>est v. coef est = Some (Array1 v) \<and> 10 \<le> length v \<longrightarrow>
            variable_importance est = Array1 v
            \<and> (\<exists>cols. top_10_vars L (variable_importance est) = Inr (Ix1 cols)
                  \<and> length cols = 10 \<and> distinct cols
                  \<and> (\<forall>c \<in> set cols. \<forall>j < length v. j \<notin> set cols \<longrightarrow> v ! j \<le> v ! c)))
    \<and> (\<forall>est. coef est = Some (Array1 signed_example) \<longrightarrow>
          (\<exists>cols. top_10_vars L (variable_importance est) = Inr (Ix1 cols)
             \<and> 0 \<notin> set cols \<and> set cols = {1..10}))
    \<and> (\<forall>est data w. coef est = Some (Array1 signed_example)
          \<and> (\<forall>i < length signed_example. column_number data i \<noteq> None) \<longrightarrow>
          fst (report_importance L data est w) = Inr ()
          \<and> set (printed_scores (drop (length (stdout w))
                   (stdout (snd (report_importance L data est w)))))
              = PyFloat ` real ` {1..10})
    \<and> (\<forall>c \<in> {1..10}. 0 < signed_example ! c
          \<and> \<bar>signed_example ! c\<bar> < \<bar>signed_example ! 0\<bar>)"
proof -
  have vi: "variable_importance est = Array1 v" if "coef est = Some (Array1 v)"
    for est :: estimator and v
    using that by (simp add: variable_importance_def)
  have general: "\<forall>est v. coef est = Some (Array1 v) \<and> 10 \<le> length v \<longrightarrow>
            variable_importance est = Array1 v
            \<and> (\<exists>cols. top_10_vars L (variable_importance est) = Inr (Ix1 cols)
                  \<and> length cols = 10 \<and> distinct cols
                  \<and> (\<forall>c \<in> set cols. \<forall>j < length v. j \<notin> set cols \<longrightarrow> v ! j \<le> v ! c))"
  proof (intro allI impI, elim conjE)
    fix est :: estimator and v
    assume c: "coef est = Some (Array1 v)" and len: "10 \<le> length v"
    define cols where "cols = drop (length v - 10) (introselect L v (length v - 10))"
    note props = top_10_cols_props[OF assms len cols_def]
    have "top_10_vars L (variable_importance est) = Inr (Ix1 cols)"
      unfolding vi[OF c] cols_def by (rule top_10_vars_Array1[OF assms len])
    then show "variable_importance est = Array1 v
            \<and> (\<exists>cols. top_10_vars L (variable_importance est) = Inr (Ix1 cols)
                  \<and> length cols = 10 \<and> distinct cols
                  \<and> (\<forall>c \<in> set cols. \<forall>j < length v. j \<notin> set cols \<longrightarrow> v ! j \<le> v ! c))"
      using vi[OF c] props(1,2,4) by blast
  qed
  have len: "10 \<le> length signed_example" by (simp add: signed_example_def)
  have example: "\<forall>est. coef est = Some (Array1 signed_example) \<longrightarrow>
          (\<exists>cols. top_10_vars L (variable_importance est) = Inr (Ix1 cols)
             \<and> 0 \<notin> set cols \<and> set cols = {1..10})"
  proof (intro allI impI)
    fix est :: estimator assume c: "coef est = Some (Array1 signed_example)"
    obtain cols where top: "top_10_vars L (Array1 signed_example) = Inr (Ix1 cols)"
      using top_10_vars_Array1[OF assms len] by blast
    show "\<exists>cols. top_10_vars L (variable_importance est) = Inr (Ix1 cols)
             \<and> 0 \<notin> set cols \<and> set cols = {1..10}"
      unfolding vi[OF c] using top signed_example_top_10(3,4)[OF assms top] by blast
  qed
  have printed: "\<forall>est data w. coef est = Some (Array1 signed_example)
          \<and> (\<forall>i < length signed_example. column_number data i \<noteq> None) \<longrightarrow>
          fst (report_importance L data est w) = Inr ()
          \<and> set (printed_scores (drop (length (stdout w))
                   (stdout (snd (report_importance L data est w)))))
              = PyFloat ` real ` {1..10}"
  proof (intro allI impI, elim conjE)
    fix est :: estimator and data :: ArticleDB and w :: world
    assume c: "coef est = Some (Array1 signed_example)"
      and named: "\<forall>i < length signed_example. column_number data i \<noteq> None"
    obtain cols where top: "top_10_vars L (Array1 signed_example) = Inr (Ix1 cols)"
      and run: "report_importance L data est w
               = (Inr (), w\<lparr>stdout := stdout w @ Most_important #
                    map (\<lambda>rank. Feature_line (rank + 1) (the (column_number data (cols ! rank)))
                                   (PyFloat (signed_example ! (cols ! rank)))) [0..<10]\<rparr>)"
      using top_10_selection[OF assms len named vi[OF c], of w] by blast
    note s = signed_example_top_10[OF assms top]
    have nth: "map (\<lambda>rank. cols ! rank) [0..<10] = cols"
      using s(1) by (metis map_nth)
    have "map (\<lambda>rank. PyFloat (signed_example ! (cols ! rank))) [0..<10]
            = map (\<lambda>c. PyFloat (signed_example ! c)) (map (\<lambda>rank. cols ! rank) [0..<10])"
      by simp
    then have "map (\<lambda>rank. PyFloat (signed_example ! (cols ! rank))) [0..<10]
            = map (\<lambda>c. PyFloat (signed_example ! c)) cols"
      unfolding nth .
    then have "set (map (\<lambda>rank. PyFloat (signed_example ! (cols ! rank))) [0..<10])
                 = (\<lambda>c. PyFloat (signed_example ! c)) ` set cols"
      by simp
    also have "\<dots> = (\<lambda>c. PyFloat (real c)) ` {1..10}"
      unfolding s(4) by (rule image_cong) (simp_all add: signed_example_nth)
    also have "\<dots> = PyFloat ` real ` {1..10}" by (simp add: image_image)
    finally have "set (map (\<lambda>rank. PyFloat (signed_example ! (cols ! rank))) [0..<10])
                    = PyFloat ` real ` {1..10}" .
    then show "fst (report_importance L data est w) = Inr ()
          \<and> set (printed_scores (drop (length (stdout w))
                   (stdout (snd (report_importance L data est w)))))
              = PyFloat ` real ` {1..10}"
      by (simp add: run printed_scores_feature_lines)
  qed
  have mag: "\<forall>c \<in> {1..10}. 0 < signed_example ! c
          \<and> \<bar>signed_example ! c\<bar> < \<bar>signed_example ! 0\<bar>"
  proof
    fix c :: nat assume "c \<in> {1..10}"
    then have "c < length signed_example" "c \<noteq> 0" by (auto simp: signed_example_def)
    then show "0 < signed_example ! c \<and> \<bar>signed_example ! c\<bar> < \<bar>signed_example ! 0\<bar>"
      using signed_example_positive by blast
  qed
  show ?thesis using general example printed mag by blast
qed

theorem raw_score_ranking_witness:
  "introselect_ok ref_lib
   \<and> coef signed_estimator = Some (Array1 signed_example)
   \<and> variable_importance signed_estimator = Array1 signed_example
   \<and> (\<exists>cols. top_10_vars ref_lib (variable_importance signed_estimator) = Inr (Ix1 cols)
          \<and> 0 \<notin> set cols \<and> set cols = {1..10})
   \<and> signed_example ! 0 = - 100
   \<and> fst (report_importance ref_lib ref_articles signed_estimator (start 0)) = Inr ()
   \<and> PyFloat (- 100) \<notin> set (printed_scores
         (stdout (snd (report_importance ref_lib ref_articles signed_estimator (start 0)))))"
proof -
  note th = raw_score_ranking[OF ref_lib_introselect_ok]
  have c: "coef signed_estimator = Some (Array1 signed_example)"
    by (simp add: signed_estimator_def)
  have len: "10 \<le> length signed_example" by (simp add: signed_example_def)
  have named: "\<forall>i < length signed_example. column_number ref_articles i \<noteq> None"
    by (simp add: signed_example_def ref_articles_def)
  have 1: "variable_importance signed_estimator = Array1 signed_example"
    using th c len by blast
  have 2: "\<exists>cols. top_10_vars ref_lib (variable_importance signed_estimator) = Inr (Ix1 cols)
          \<and> 0 \<notin> set cols \<and> set cols = {1..10}"
    using th c by blast
  have 3: "fst (report_importance ref_lib ref_articles signed_estimator (start 0)) = Inr ()
     \<and> set (printed_scores (drop (length (stdout (start 0)))
               (stdout (snd (report_importance ref_lib ref_articles signed_estimator (start 0))))))
         = PyFloat ` real ` {1..10}"
    using th c named by blast
  then have 4: "PyFloat (- 100) \<notin> set (printed_scores
         (stdout (snd (report_importance ref_lib ref_articles signed_estimator (start 0)))))"
    by (auto simp: start_def)
  have 5: "signed_example ! 0 = - 100" by (simp add: signed_example_def)
  show ?thesis using ref_lib_introselect_ok c 1 2 3 4 5 by blast
qed

section \<open>Facts about the call log and the driver\<close>

lemma print_features_frame:
  "calls (snd (print_features data var_imp t ranks w)) = calls w
   \<and> rng (snd (print_features data var_imp t ranks w)) = rng w"
  by (induction ranks arbitrary: w) (auto simp: print_def split: sum.splits)

lemma report_importance_frame:
  "calls (snd (report_importance L data est w)) = calls w
   \<and> rng (snd (report_importance L data est w)) = rng w"
  by (simp add: report_importance_def Let_def print_features_frame print_def split: sum.splits)

lemma train_model_data: "fst (snd (train_model L data k grid w)) = data"
  by (simp add: train_model_def Let_def split: sum.splits prod.splits)

lemma train_model_calls:
  "calls (snd (snd (train_model L data k grid w))) =
     calls w @ Call_train_model data k grid
       # Call_train_test_split (db_X data) (db_y data) 0.2 None
       # (case train_test_split L (rng w) (db_X data) (db_y data) 0.2 None of
            Inl e \<Rightarrow> []
          | Inr ((X_train, X_test, y_train, y_test), r1) \<Rightarrow>
              Call_GridSearchCV_fit (instantiate k) grid X_train y_train
                # (case GridSearchCV_fit L r1 (instantiate k) grid X_train y_train of
                     Inl e \<Rightarrow> []
                   | Inr (model, r2) \<Rightarrow>
                       map Call_estimator_fit (estimator_fits model)
                         @ [Call_score X_test y_test]))"
proof -
  have r: "calls (snd (snd (case report_importance L data est w' of (res, w8) \<Rightarrow> (res, data, w8))))
             = calls w'" for est w'
    using report_importance_frame[of L data est w'] by (simp add: split_beta)
  show ?thesis
    by (simp add: train_model_def Let_def log_call_def log_calls_def print_def r
        split: sum.splits prod.splits)
qed

lemma no_driver_call_in_fits: "filter is_driver_call (map Call_estimator_fit ps) = []"
  by (induction ps) simp_all

lemma train_model_driver_calls:
  "filter is_driver_call (calls (snd (snd (train_model L data k grid w))))
     = filter is_driver_call (calls w) @ [Call_train_model data k grid]"
  by (simp add: train_model_calls no_driver_call_in_fits split: sum.splits prod.splits)

lemma article_trainers_unfold:
  assumes "ArticleDB_init L False False = Inr articles"
  shows "article_trainers L w =
     (let r1 = train_model L articles DecisionTreeClassifier []
                 (log_call (Call_ArticleDB False False) w)
      in case fst r1 of
           Inl e \<Rightarrow> (Inl e, snd (snd r1))
         | Inr u1 \<Rightarrow>
             (let r2 = train_model L articles MultinomialNB alpha_grid (snd (snd r1))
              in case fst r2 of
                   Inl e \<Rightarrow> (Inl e, snd (snd r2))
                 | Inr u2 \<Rightarrow>
                     (let r3 = train_model L articles LogisticRegression C_grid (snd (snd r2))
                      in (fst r3, snd (snd r3)))))"
proof -
  obtain x1 w2 where r1: "train_model L articles DecisionTreeClassifier []
                 (log_call (Call_ArticleDB False False) w) = (x1, articles, w2)"
    using train_model_data[of L articles DecisionTreeClassifier "[]"
        "log_call (Call_ArticleDB False False) w"]
    by (metis fst_conv prod.collapse)
  obtain x2 w3 where r2: "train_model L articles MultinomialNB alpha_grid w2 = (x2, articles, w3)"
    using train_model_data[of L articles MultinomialNB alpha_grid w2]
    by (metis fst_conv prod.collapse)
  obtain x3 w4 where r3: "train_model L articles LogisticRegression C_grid w3 = (x3, articles, w4)"
    using train_model_data[of L articles LogisticRegression C_grid w3]
    by (metis fst_conv prod.collapse)
  show ?thesis
    by (simp add: article_trainers_def Let_def assms r1 r2 r3 split: sum.splits)
qed

section \<open>Facts about standard output and complete runs\<close>

lemma print_features_stdout:
  "prefix (stdout w) (stdout (snd (print_features data var_imp t ranks w)))"
proof (induction ranks arbitrary: w)
  case Nil
  then show ?case by simp
next
  case (Cons r ranks)
  have "prefix (stdout w) (stdout (print l w))" for l by (simp add: print_def)
  then show ?case using Cons
    by (auto split: sum.splits intro: prefix_order.trans)
qed

lemma report_importance_stdout:
  "prefix (stdout w) (stdout (snd (report_importance L data est w)))"
proof -
  have "prefix (stdout w) (stdout (print Most_important w))" by (simp add: print_def)
  then show ?thesis
    using print_features_stdout[of "print Most_important w"]
    by (auto simp: report_importance_def Let_def split: sum.splits intro: prefix_order.trans)
qed

lemma train_model_stdout:
  "prefix (stdout w) (stdout (snd (snd (train_model L data k grid w))))"
proof (cases "train_test_split L (rng w) (db_X data) (db_y data) 0.2 None")
  case (Inl e)
  then show ?thesis by (simp add: train_model_def Let_def log_call_def log_calls_def)
next
  case (Inr sp)
  obtain X_train X_test y_train y_test r1
    where sp: "sp = ((X_train, X_test, y_train, y_test), r1)" by (metis prod.collapse)
  show ?thesis
  proof (cases "GridSearchCV_fit L r1 (instantiate k) grid X_train y_train")
    case (Inl e)
    then show ?thesis using Inr sp by (simp add: train_model_def Let_def log_call_def log_calls_def)
  next
    case fit: (Inr fr)
    obtain model r2 where fr: "fr = (model, r2)" by (metis prod.collapse)
    show ?thesis
    proof (cases "score L model X_test y_test")
      case (Inl e)
      then show ?thesis using Inr sp fit fr by (simp add: train_model_def Let_def log_call_def log_calls_def)
    next
      case sc: (Inr accuracy)
      let ?w7 = "w\<lparr>rng := r2,
                calls := calls w @
                  [Call_train_model data k grid,
                   Call_train_test_split (db_X data) (db_y data) 0.2 None,
                   Call_GridSearchCV_fit (instantiate k) grid X_train y_train]
                  @ map Call_estimator_fit (estimator_fits model) @ [Call_score X_test y_test],
                stdout := stdout w @
                  [Header (learner_repr L (instantiate k)) (best_params model),
                   Val_accuracy (best_score model), Test_accuracy accuracy]\<rparr>"
      have "prefix (stdout w) (stdout ?w7)" by simp
      also have "prefix (stdout ?w7)
                   (stdout (snd (report_importance L data (best_estimator model) ?w7)))"
        by (rule report_importance_stdout)
      finally show ?thesis
        unfolding train_model_to_importance[OF Inr[unfolded sp] fit[unfolded fr] sc]
        by (simp add: split_beta)
    qed
  qed
qed

lemma report_importance_Array1_ok:
  assumes "introselect_ok L" and "10 \<le> length v"
    and "\<forall>i < length v. column_number data i \<noteq> None"
    and "variable_importance est = Array1 v"
  shows "fst (report_importance L data est w) = Inr ()"
proof -
  define cols where "cols = drop (length v - 10) (introselect L v (length v - 10))"
  note props = top_10_cols_props[OF assms(1,2) cols_def]
  have top: "top_10_vars L (Array1 v) = Inr (Ix1 cols)"
    unfolding cols_def by (rule top_10_vars_Array1[OF assms(1,2)])
  have ranks: "\<forall>r \<in> set [0..<10]. r < length cols" using props(1) by simp
  have named: "\<forall>c \<in> set cols. c < length v \<and> column_number data c \<noteq> None"
    using props(3) assms(3) by blast
  show ?thesis
    by (simp add: report_importance_def assms(4) top print_features_Ix1[OF ranks named])
qed

lemma ref_named: "\<forall>i < length ref_importances. column_number ref_articles i \<noteq> None"
  by (simp add: ref_importances_def ref_articles_def)

lemma ref_train_ok:
  assumes "ParameterGrid grid = p # ps"
  shows "fst (train_model ref_lib ref_articles k grid w) = Inr ()"
proof -
  let ?est = "tree_attrs ((instantiate k)\<lparr>init_args := p\<rparr>)"
  let ?model = "\<lparr>best_params = p, best_score = 1, best_estimator = ?est,
                  cv_results_params = ParameterGrid grid, n_splits = 5\<rparr>"
  have fit: "GridSearchCV_fit ref_lib (Suc (rng w)) (instantiate k) grid
               (take 8 (db_X ref_articles)) (take 8 (db_y ref_articles))
             = Inr (?model, Suc (Suc (rng w)))"
    by (simp add: ref_lib_def lib_with_def ref_fit_def assms instantiate_def)
  have sc: "score ref_lib ?model (drop 8 (db_X ref_articles)) (drop 8 (db_y ref_articles)) = Inr 1"
    by (simp add: ref_lib_def lib_score)
  have vi: "variable_importance (best_estimator ?model) = Array1 ref_importances"
    by (simp add: variable_importance_def tree_attrs_def instantiate_def)
  have len: "10 \<le> length ref_importances" by (simp add: ref_importances_def)
  show ?thesis
    unfolding train_model_to_importance[OF lib_split_any[of tree_attrs "rng w", folded ref_lib_def] fit sc]
    using report_importance_Array1_ok[OF ref_lib_introselect_ok len ref_named vi]
    by (simp add: split_beta)
qed

lemma ParameterGrid_alpha_grid:
  "ParameterGrid alpha_grid = [[(''alpha'', PFloat 0.1)], [(''alpha'', PFloat 1.0)],
     [(''alpha'', PFloat 10.0)], [(''alpha'', PFloat 100.0)]]"
  by (simp add: ParameterGrid_def alpha_grid_def)


section \<open>Facts about the result of a run\<close>

lemma print_features_result:
  "fst (print_features data var_imp t ranks w) = fst (print_features data var_imp t ranks w')"
  by (induction ranks arbitrary: w w') (auto split: sum.splits)

lemma report_importance_result:
  "fst (report_importance L data est w) = fst (report_importance L data est w')"
  using print_features_result
  by (auto simp: report_importance_def Let_def split: sum.splits)

lemma train_model_result:
  assumes "train_test_split L (rng w) (db_X data) (db_y data) 0.2 None
             = Inr ((X_train, X_test, y_train, y_test), r1)"
    and "GridSearchCV_fit L r1 (instantiate k) grid X_train y_train = Inr (model, r2)"
    and "score L model X_test y_test = Inr accuracy"
  shows "fst (train_model L data k grid w) = fst (report_importance L data (best_estimator model) w')"
  unfolding train_model_to_importance[OF assms]
  using report_importance_result[of L data "best_estimator model" _ w']
  by (simp add: split_beta)

lemma lib_introselect_ok: "introselect_ok (lib_with a)"
  by (simp add: introselect_ok_def lib_with_def argsort_partitioned)

lemma lib_fit_first:
  assumes "ParameterGrid grid = p # ps"
  shows "GridSearchCV_fit (lib_with a) r (instantiate k) grid X_train y_train
     = Inr (\<lparr>best_params = p, best_score = 1,
             best_estimator = a ((instantiate k)\<lparr>init_args := p\<rparr>),
             cv_results_params = ParameterGrid grid, n_splits = 5\<rparr>, Suc r)"
  by (simp add: lib_with_def ref_fit_def assms instantiate_def)

lemma lib_train_result:
  assumes "ParameterGrid grid = p # ps"
  shows "fst (train_model (lib_with a) ref_articles k grid w)
     = fst (report_importance (lib_with a) ref_articles
              (a ((instantiate k)\<lparr>init_args := p\<rparr>)) w')"
  using train_model_result[OF lib_split_any[of a "rng w"]
      lib_fit_first[OF assms, of a _ k] lib_score[of a], of w']
  by simp

lemma lib_train_ok:
  assumes "ParameterGrid grid = p # ps"
    and "variable_importance (a ((instantiate k)\<lparr>init_args := p\<rparr>)) = Array1 ref_importances"
  shows "fst (train_model (lib_with a) ref_articles k grid w) = Inr ()"
proof -
  have len: "10 \<le> length ref_importances" by (simp add: ref_importances_def)
  show ?thesis
    unfolding lib_train_result[OF assms(1), of a k w w]
    by (rule report_importance_Array1_ok[OF lib_introselect_ok len ref_named assms(2)])
qed



section \<open>C6: what the driver runs\<close>

lemma article_trainers_driver_calls:
  assumes "ArticleDB_init L False False = Inr articles"
  shows "filter is_driver_call (calls (snd (article_trainers L w)))
    = filter is_driver_call (calls w) @
        Call_ArticleDB False False # Call_train_model articles DecisionTreeClassifier []
          # (case fst (train_model L articles DecisionTreeClassifier []
                        (log_call (Call_ArticleDB False False) w)) of
               Inl e \<Rightarrow> []
             | Inr u1 \<Rightarrow>
                 Call_train_model articles MultinomialNB alpha_grid
                   # (case fst (train_model L articles MultinomialNB alpha_grid
                                 (snd (snd (train_model L articles DecisionTreeClassifier []
                                    (log_call (Call_ArticleDB False False) w))))) of
                        Inl e \<Rightarrow> []
                      | Inr u2 \<Rightarrow> [Call_train_model articles LogisticRegression C_grid]))"
  unfolding article_trainers_unfold[OF assms]
  by (simp add: Let_def train_model_driver_calls log_call_def split: sum.splits)




section \<open>C10: the dataset is only read\<close>

lemma main_train_model_calls:
  assumes "ArticleDB_init L False False = Inr articles"
    and "Call_train_model d k g \<in> set (calls (snd (main L seed)))"
  shows "d = articles"
proof -
  have "Call_train_model d k g \<in> set (filter is_driver_call (calls (snd (main L seed))))"
    using assms(2) by simp
  then show ?thesis
    unfolding main_def article_trainers_driver_calls[OF assms(1)]
    by (auto simp: start_def split: sum.splits)
qed

text \<open>
  C10. Every call of the trainer hands back the dataset it was given, whether it returns or
  raises: no attribute of the dataset is assigned. The trainer returns no value (it returns
  \<open>None\<close> or raises), and what it reports is appended to standard output. In a run of
  the script every trainer call is on the dataset the constructor returned, so the three
  runs see the same dataset state.
\<close>

theorem dataset_unchanged:
  "fst (snd (train_model L data k grid w)) = data
   \<and> (fst (train_model L data k grid w) = Inr () \<or> (\<exists>e. fst (train_model L data k grid w) = Inl e))
   \<and> prefix (stdout w) (stdout (snd (snd (train_model L data k grid w))))
   \<and> (ArticleDB_init L False False = Inr articles \<longrightarrow>
        (\<forall>d k' g. Call_train_model d k' g \<in> set (calls (snd (main L seed))) \<longrightarrow> d = articles))"
proof -
  have "fst (train_model L data k grid w) = Inr () \<or> (\<exists>e. fst (train_model L data k grid w) = Inl e)"
    by (cases "fst (train_model L data k grid w)") auto
  then show ?thesis
    using train_model_data[of L data k grid w] train_model_stdout[of w L data k grid]
      main_train_model_calls[of L articles]
    by blast
qed

theorem dataset_unchanged_witness:
  "fst (snd (train_model ref_lib ref_articles LogisticRegression C_grid (start 0))) = ref_articles
   \<and> ArticleDB_init ref_lib False False = Inr ref_articles
   \<and> (\<exists>d. Call_train_model d LogisticRegression C_grid \<in> set (calls (snd (main ref_lib 0)))
         \<and> d = ref_articles)"
proof -
  have i: "ArticleDB_init ref_lib False False = Inr ref_articles"
    by (simp add: ref_lib_def lib_with_def)
  have "Call_train_model ref_articles LogisticRegression C_grid
          \<in> set (filter is_driver_call (calls (snd (main ref_lib 0))))"
    unfolding main_def article_trainers_driver_calls[OF i]
    by (simp add: ref_train_ok[OF ParameterGrid_empty] ref_train_ok[OF ParameterGrid_alpha_grid])
  then have m: "Call_train_model ref_articles LogisticRegression C_grid
          \<in> set (calls (snd (main ref_lib 0)))" by simp
  show ?thesis
    using dataset_unchanged[of ref_lib ref_articles LogisticRegression C_grid "start 0"
        ref_articles 0] i m
    by blast
qed

section \<open>C7: the empty grid\<close>

lemma map_of_empty_Nil: "map_of xs = Map.empty \<Longrightarrow> xs = []"
  by (cases xs) (auto simp: fun_eq_iff split: if_splits)

lemma filter_estimator_fits:
  "filter is_estimator_fit (map Call_estimator_fit ps) = map Call_estimator_fit ps"
  "filter is_fit_call (map Call_estimator_fit ps) = []"
  by (induction ps) simp_all

lemma train_model_header:
  assumes "train_test_split L (rng w) (db_X data) (db_y data) 0.2 None
             = Inr ((X_train, X_test, y_train, y_test), r1)"
    and "GridSearchCV_fit L r1 (instantiate k) grid X_train y_train = Inr (model, r2)"
    and "score L model X_test y_test = Inr accuracy"
  shows "prefix (stdout w @ [Header (learner_repr L (instantiate k)) (best_params model),
                            Val_accuracy (best_score model), Test_accuracy accuracy])
           (stdout (snd (snd (train_model L data k grid w))))"
proof -
  let ?w7 = "w\<lparr>rng := r2,
                calls := calls w @
                  [Call_train_model data k grid,
                   Call_train_test_split (db_X data) (db_y data) 0.2 None,
                   Call_GridSearchCV_fit (instantiate k) grid X_train y_train]
                  @ map Call_estimator_fit (estimator_fits model) @ [Call_score X_test y_test],
                stdout := stdout w @
                  [Header (learner_repr L (instantiate k)) (best_params model),
                   Val_accuracy (best_score model), Test_accuracy accuracy]\<rparr>"
  have "prefix (stdout ?w7) (stdout (snd (report_importance L data (best_estimator model) ?w7)))"
    by (rule report_importance_stdout)
  then show ?thesis
    unfolding train_model_to_importance[OF assms] by (simp add: split_beta)
qed

text \<open>
  C7, as amended. For every classifier class the trainer instantiates it with no arguments
  and makes one \<open>GridSearchCV(...).fit\<close> call with the grid it was given. The search fits
  the estimator once per candidate and cross-validation split and once more for the refit.
  With an empty grid there is exactly one candidate, the empty parameter setting (no
  hyperparameter search): every fit uses the default configuration, the best parameters
  are \<open>{}\<close> and are printed so, and the best estimator has no parameter changed. The
  estimator is then fitted once per split and once for the refit, which is at least three
  times, not once.
\<close>

theorem empty_grid_default_fits:
  assumes "fit_ok L"
    and "train_test_split L (rng w) (db_X data) (db_y data) 0.2 None
           = Inr ((X_train, X_test, y_train, y_test), r1)"
    and "GridSearchCV_fit L r1 (instantiate k) grid X_train y_train = Inr (model, r2)"
  shows "init_args (instantiate k) = []
    \<and> filter is_fit_call (calls (snd (snd (train_model L data k grid w))))
        = filter is_fit_call (calls w)
            @ [Call_GridSearchCV_fit (instantiate k) grid X_train y_train]
    \<and> filter is_estimator_fit (calls (snd (snd (train_model L data k grid w))))
        = filter is_estimator_fit (calls w)
            @ map Call_estimator_fit
                (concat (map (replicate (n_splits model)) (ParameterGrid grid))
                 @ [best_params model])
    \<and> 2 \<le> n_splits model
    \<and> (grid = [] \<longrightarrow>
          ParameterGrid grid = [[]]
          \<and> best_params model = []
          \<and> cls (best_estimator model) = k
          \<and> init_args (best_estimator model) = []
          \<and> filter is_estimator_fit (calls (snd (snd (train_model L data k grid w))))
              = filter is_estimator_fit (calls w)
                  @ replicate (n_splits model + 1) (Call_estimator_fit [])
          \<and> (\<forall>accuracy. score L model X_test y_test = Inr accuracy \<longrightarrow>
                prefix (stdout w @ [Header (learner_repr L (instantiate k)) [],
                                    Val_accuracy (best_score model), Test_accuracy accuracy])
                  (stdout (snd (snd (train_model L data k grid w))))))"
proof -
  have ok: "cv_results_params model = ParameterGrid grid" "2 \<le> n_splits model"
    "best_params model \<in> set (ParameterGrid grid)"
    "cls (best_estimator model) = cls (instantiate k)"
    "map_of (init_args (best_estimator model))
       = map_of (init_args (instantiate k)) ++ map_of (best_params model)"
    using assms(1,3) unfolding fit_ok_def by blast+
  have calls: "calls (snd (snd (train_model L data k grid w))) =
     calls w @ Call_train_model data k grid
       # Call_train_test_split (db_X data) (db_y data) 0.2 None
       # Call_GridSearchCV_fit (instantiate k) grid X_train y_train
       # map Call_estimator_fit (estimator_fits model) @ [Call_score X_test y_test]"
    using assms(2,3) by (simp add: train_model_calls)
  have fitcalls: "filter is_fit_call (calls (snd (snd (train_model L data k grid w))))
        = filter is_fit_call (calls w)
            @ [Call_GridSearchCV_fit (instantiate k) grid X_train y_train]"
    by (simp add: calls filter_estimator_fits)
  have fits: "filter is_estimator_fit (calls (snd (snd (train_model L data k grid w))))
        = filter is_estimator_fit (calls w)
            @ map Call_estimator_fit
                (concat (map (replicate (n_splits model)) (ParameterGrid grid))
                 @ [best_params model])"
    by (simp add: calls filter_estimator_fits estimator_fits_def ok(1))
  have empty: "grid = [] \<longrightarrow>
          ParameterGrid grid = [[]]
          \<and> best_params model = []
          \<and> cls (best_estimator model) = k
          \<and> init_args (best_estimator model) = []
          \<and> filter is_estimator_fit (calls (snd (snd (train_model L data k grid w))))
              = filter is_estimator_fit (calls w)
                  @ replicate (n_splits model + 1) (Call_estimator_fit [])
          \<and> (\<forall>accuracy. score L model X_test y_test = Inr accuracy \<longrightarrow>
                prefix (stdout w @ [Header (learner_repr L (instantiate k)) [],
                                    Val_accuracy (best_score model), Test_accuracy accuracy])
                  (stdout (snd (snd (train_model L data k grid w)))))"
  proof
    assume g: "grid = []"
    have pg: "ParameterGrid grid = [[]]" using g by (simp add: ParameterGrid_def)
    have bp: "best_params model = []" using ok(3) pg by simp
    have "map_of (init_args (best_estimator model)) = Map.empty"
      using ok(5) bp by (simp add: instantiate_def)
    then have ia: "init_args (best_estimator model) = []" by (rule map_of_empty_Nil)
    have cl: "cls (best_estimator model) = k" using ok(4) by (simp add: instantiate_def)
    have "map Call_estimator_fit (replicate (n_splits model) [] @ [[]])
            = replicate (n_splits model + 1) (Call_estimator_fit [])"
      by (simp add: replicate_append_same)
    then have n: "filter is_estimator_fit (calls (snd (snd (train_model L data k grid w))))
              = filter is_estimator_fit (calls w)
                  @ replicate (n_splits model + 1) (Call_estimator_fit [])"
      unfolding fits pg bp by simp
    have hd: "\<forall>accuracy. score L model X_test y_test = Inr accuracy \<longrightarrow>
                prefix (stdout w @ [Header (learner_repr L (instantiate k)) [],
                                    Val_accuracy (best_score model), Test_accuracy accuracy])
                  (stdout (snd (snd (train_model L data k grid w))))"
      using train_model_header[OF assms(2,3)] bp by simp
    show "ParameterGrid grid = [[]]
          \<and> best_params model = []
          \<and> cls (best_estimator model) = k
          \<and> init_args (best_estimator model) = []
          \<and> filter is_estimator_fit (calls (snd (snd (train_model L data k grid w))))
              = filter is_estimator_fit (calls w)
                  @ replicate (n_splits model + 1) (Call_estimator_fit [])
          \<and> (\<forall>accuracy. score L model X_test y_test = Inr accuracy \<longrightarrow>
                prefix (stdout w @ [Header (learner_repr L (instantiate k)) [],
                                    Val_accuracy (best_score model), Test_accuracy accuracy])
                  (stdout (snd (snd (train_model L data k grid w)))))"
      using pg bp cl ia n hd by blast
  qed
  have ia0: "init_args (instantiate k) = []" by (simp add: instantiate_def)
  show ?thesis using ia0 fitcalls fits ok(2) empty by blast
qed

lemma ref_lib_fit_ok: "fit_ok ref_lib"
  unfolding fit_ok_def
proof (intro allI impI)
  fix r est grid X y model r'
  assume a: "GridSearchCV_fit ref_lib r est grid X y = Inr (model, r')"
  then obtain p ps where pg: "ParameterGrid grid = p # ps"
    by (cases "ParameterGrid grid") (auto simp: ref_lib_def lib_with_def ref_fit_def)
  then have m: "model = \<lparr>best_params = p, best_score = 1,
                best_estimator = tree_attrs (est\<lparr>init_args := p @ init_args est\<rparr>),
                cv_results_params = ParameterGrid grid, n_splits = 5\<rparr>"
    using a by (auto simp: ref_lib_def lib_with_def ref_fit_def)
  show "cv_results_params model = ParameterGrid grid
          \<and> 2 \<le> n_splits model
          \<and> best_params model \<in> set (ParameterGrid grid)
          \<and> cls (best_estimator model) = cls est
          \<and> map_of (init_args (best_estimator model))
              = map_of (init_args est) ++ map_of (best_params model)"
    by (simp add: m pg tree_attrs_def)
qed

lemma ref_empty_grid_fits:
  "filter is_estimator_fit (calls (snd (snd (train_model ref_lib ref_articles
      DecisionTreeClassifier [] (start 0)))))
     = replicate 6 (Call_estimator_fit [])"
proof -
  have "calls (snd (snd (train_model ref_lib ref_articles DecisionTreeClassifier [] (start 0))))
     = calls (start 0) @ Call_train_model ref_articles DecisionTreeClassifier []
       # Call_train_test_split (db_X ref_articles) (db_y ref_articles) 0.2 None
       # Call_GridSearchCV_fit (instantiate DecisionTreeClassifier) []
           (take 8 (db_X ref_articles)) (take 8 (db_y ref_articles))
       # map Call_estimator_fit (estimator_fits
            \<lparr>best_params = [], best_score = 1,
               best_estimator = tree_attrs (instantiate DecisionTreeClassifier),
               cv_results_params = [[]], n_splits = 5\<rparr>)
         @ [Call_score (drop 8 (db_X ref_articles)) (drop 8 (db_y ref_articles))]"
    using lib_split[of tree_attrs 0, folded ref_lib_def]
      lib_fit_empty[of tree_attrs "Suc 0" DecisionTreeClassifier, folded ref_lib_def]
    by (simp add: train_model_calls)
  then show ?thesis
    by (simp add: start_def estimator_fits_def filter_estimator_fits numeral_eq_Suc)
qed

theorem empty_grid_default_fits_witness:
  "fit_ok ref_lib
   \<and> filter is_fit_call (calls (snd (snd (train_model ref_lib ref_articles DecisionTreeClassifier []
        (start 0)))))
       = [Call_GridSearchCV_fit (instantiate DecisionTreeClassifier) []
            (take 8 (db_X ref_articles)) (take 8 (db_y ref_articles))]
   \<and> filter is_estimator_fit (calls (snd (snd (train_model ref_lib ref_articles
        DecisionTreeClassifier [] (start 0)))))
       = replicate 6 (Call_estimator_fit [])
   \<and> init_args (tree_attrs (instantiate DecisionTreeClassifier)) = []
   \<and> prefix [Header ''DecisionTreeClassifier'' [], Val_accuracy 1, Test_accuracy 1]
        (stdout (snd (snd (train_model ref_lib ref_articles DecisionTreeClassifier []
           (start 0)))))"
proof -
  note th = empty_grid_default_fits[OF ref_lib_fit_ok
      lib_split[of tree_attrs 0, folded ref_lib_def]
      lib_fit_empty[of tree_attrs _ DecisionTreeClassifier, folded ref_lib_def]]
  have sc: "score ref_lib m X y = Inr 1" for m X y by (simp add: ref_lib_def lib_score)
  have rp: "learner_repr ref_lib (instantiate DecisionTreeClassifier) = ''DecisionTreeClassifier''"
    by (simp add: ref_lib_def lib_learner_repr learner_name_def)
  have a: "filter is_fit_call (calls (snd (snd (train_model ref_lib ref_articles
              DecisionTreeClassifier [] (start 0)))))
       = [Call_GridSearchCV_fit (instantiate DecisionTreeClassifier) []
            (take 8 (db_X ref_articles)) (take 8 (db_y ref_articles))]"
    using th by (simp add: start_def)
  have r6: "replicate 5 x @ [x] = replicate 6 x" for x :: call
    by (simp add: numeral_eq_Suc)
  have b: "filter is_estimator_fit (calls (snd (snd (train_model ref_lib ref_articles
        DecisionTreeClassifier [] (start 0)))))
       = replicate 6 (Call_estimator_fit [])"
    using th by (simp add: start_def r6)
  have c: "init_args (tree_attrs (instantiate DecisionTreeClassifier)) = []"
    using th by simp
  have "prefix (stdout (start 0) @ [Header (learner_repr ref_lib (instantiate DecisionTreeClassifier)) [],
                  Val_accuracy 1, Test_accuracy 1])
          (stdout (snd (snd (train_model ref_lib ref_articles DecisionTreeClassifier []
             (start 0)))))"
    using th sc by simp
  then have d: "prefix [Header ''DecisionTreeClassifier'' [], Val_accuracy 1, Test_accuracy 1]
        (stdout (snd (snd (train_model ref_lib ref_articles DecisionTreeClassifier []
           (start 0)))))"
    unfolding rp by (simp add: start_def)
  show ?thesis using ref_lib_fit_ok a b c d by blast
qed

text \<open>
  The claim as stated fails: with the empty grid and five splits the estimator is fitted
  six times with its default configuration, not once.
\<close>

theorem empty_grid_counterexample:
  "fit_ok ref_lib
   \<and> filter is_estimator_fit (calls (snd (snd (train_model ref_lib ref_articles
        DecisionTreeClassifier [] (start 0)))))
       = replicate 6 (Call_estimator_fit [])
   \<and> length (filter is_estimator_fit (calls (snd (snd (train_model ref_lib ref_articles
        DecisionTreeClassifier [] (start 0)))))) \<noteq> 1"
  using ref_lib_fit_ok by (simp add: ref_empty_grid_fits)

section \<open>C5: the train/test split\<close>

text \<open>
  C5. The trainer splits \<open>(X, y)\<close> with \<open>test_size = 0.2\<close> and no \<open>random_state\<close>, so the
  split is drawn from the global random generator. With scikit-learn's size rule, whenever
  the split returns for a dataset of \<open>N\<close> rows the test partition has between
  \<open>0.2 N\<close> and \<open>0.2 N + 1\<close> rows, the training partition has the other rows (between
  \<open>0.8 N - 1\<close> and \<open>0.8 N\<close>), the labels are split alongside, the grid search is fitted
  on the training partition and the score is taken on the test partition.
\<close>

theorem split_80_20:
  assumes "split_sizes_ok L"
    and "train_test_split L (rng w) (db_X data) (db_y data) 0.2 None
           = Inr ((X_train, X_test, y_train, y_test), r1)"
  shows "0.2 * real (length (db_X data)) \<le> real (length X_test)
    \<and> real (length X_test) < 0.2 * real (length (db_X data)) + 1
    \<and> length X_train + length X_test = length (db_X data)
    \<and> 0.8 * real (length (db_X data)) - 1 < real (length X_train)
    \<and> real (length X_train) \<le> 0.8 * real (length (db_X data))
    \<and> length y_train = length X_train \<and> length y_test = length X_test
    \<and> take 3 (drop (length (calls w)) (calls (snd (snd (train_model L data k grid w)))))
        = [Call_train_model data k grid,
           Call_train_test_split (db_X data) (db_y data) 0.2 None,
           Call_GridSearchCV_fit (instantiate k) grid X_train y_train]
    \<and> (\<forall>A b. Call_score A b \<in> set (drop (length (calls w))
                 (calls (snd (snd (train_model L data k grid w))))) \<longrightarrow>
          A = X_test \<and> b = y_test)"
proof -
  let ?N = "length (db_X data)"
  have sz: "length X_test = nat \<lceil>0.2 * real ?N\<rceil>"
    "length X_train = ?N - length X_test"
    "length y_train = length X_train" "length y_test = length X_test"
    using assms unfolding split_sizes_ok_def by blast+
  have c: "\<lceil>0.2 * real ?N\<rceil> \<ge> 0" by simp
  have t1: "0.2 * real ?N \<le> real (length X_test)"
    unfolding sz(1) using c by (smt (verit) le_of_int_ceiling of_nat_nat)
  have t2: "real (length X_test) < 0.2 * real ?N + 1"
    unfolding sz(1) using c by (smt (verit) ceiling_correct of_nat_nat)
  have le: "length X_test \<le> ?N"
  proof -
    have "real (length X_test) < real ?N + 1" using t2 by simp
    then show ?thesis by linarith
  qed
  have sum: "length X_train + length X_test = ?N" using sz(2) le by simp
  then have "real (length X_train) = real ?N - real (length X_test)" by linarith
  then have t3: "0.8 * real ?N - 1 < real (length X_train)"
    and t4: "real (length X_train) \<le> 0.8 * real ?N"
    using t1 t2 by simp_all
  have calls: "calls (snd (snd (train_model L data k grid w))) =
     calls w @ Call_train_model data k grid
       # Call_train_test_split (db_X data) (db_y data) 0.2 None
       # Call_GridSearchCV_fit (instantiate k) grid X_train y_train
       # (case GridSearchCV_fit L r1 (instantiate k) grid X_train y_train of
            Inl e \<Rightarrow> []
          | Inr (model, r2) \<Rightarrow>
              map Call_estimator_fit (estimator_fits model) @ [Call_score X_test y_test])"
    using assms(2) by (simp add: train_model_calls)
  have 5: "take 3 (drop (length (calls w)) (calls (snd (snd (train_model L data k grid w)))))
        = [Call_train_model data k grid,
           Call_train_test_split (db_X data) (db_y data) 0.2 None,
           Call_GridSearchCV_fit (instantiate k) grid X_train y_train]"
    by (simp add: calls)
  have 6: "\<forall>A b. Call_score A b \<in> set (drop (length (calls w))
                 (calls (snd (snd (train_model L data k grid w))))) \<longrightarrow>
          A = X_test \<and> b = y_test"
    by (auto simp: calls split: sum.splits)
  show ?thesis using t1 t2 sum t3 t4 sz(3,4) 5 6 by blast
qed

lemma ref_lib_split_sizes_ok: "split_sizes_ok ref_lib"
  unfolding split_sizes_ok_def
  by (auto simp: ref_lib_def lib_with_def ref_split_def Let_def split: if_splits)

theorem split_80_20_witness:
  "split_sizes_ok ref_lib
   \<and> length (db_X ref_articles) = 10
   \<and> length (take 8 (db_X ref_articles)) = 8 \<and> length (drop 8 (db_X ref_articles)) = 2
   \<and> take 3 (calls (snd (snd (train_model ref_lib ref_articles MultinomialNB alpha_grid
        (start 0)))))
       = [Call_train_model ref_articles MultinomialNB alpha_grid,
          Call_train_test_split (db_X ref_articles) (db_y ref_articles) 0.2 None,
          Call_GridSearchCV_fit (instantiate MultinomialNB) alpha_grid
            (take 8 (db_X ref_articles)) (take 8 (db_y ref_articles))]"
proof -
  note th = split_80_20[OF ref_lib_split_sizes_ok lib_split[of tree_attrs 0, folded ref_lib_def],
      of MultinomialNB alpha_grid]
  have "length (db_X ref_articles) = 10" by (simp add: ref_articles_def)
  then show ?thesis using th ref_lib_split_sizes_ok by (simp add: start_def)
qed

section \<open>C9: exceptions are not handled\<close>

text \<open>
  C9. Neither function catches anything. An exception raised by the split, by the grid
  search, by scoring or by the importance step comes out of \<open>train_model\<close> as it is; an
  exception raised by the dataset constructor or coming out of any of the three trainer
  calls comes out of \<open>article_trainers\<close> as it is, and the trainer calls after it are not
  made.
\<close>

theorem exceptions_propagate:
  "(train_test_split L (rng w) (db_X data) (db_y data) 0.2 None = Inl e \<longrightarrow>
      fst (train_model L data k grid w) = Inl e)
   \<and> (train_test_split L (rng w) (db_X data) (db_y data) 0.2 None
        = Inr ((X_train, X_test, y_train, y_test), r1) \<longrightarrow>
        (GridSearchCV_fit L r1 (instantiate k) grid X_train y_train = Inl e \<longrightarrow>
           fst (train_model L data k grid w) = Inl e)
        \<and> (GridSearchCV_fit L r1 (instantiate k) grid X_train y_train = Inr (model, r2) \<longrightarrow>
             (score L model X_test y_test = Inl e \<longrightarrow>
                fst (train_model L data k grid w) = Inl e)
             \<and> (score L model X_test y_test = Inr accuracy
                  \<and> fst (report_importance L data (best_estimator model) w) = Inl e \<longrightarrow>
                  fst (train_model L data k grid w) = Inl e)))
   \<and> (ArticleDB_init L False False = Inl e \<longrightarrow> fst (article_trainers L w) = Inl e)
   \<and> (ArticleDB_init L False False = Inr articles \<longrightarrow>
        (fst (train_model L articles DecisionTreeClassifier []
               (log_call (Call_ArticleDB False False) w)) = Inl e \<longrightarrow>
           fst (article_trainers L w) = Inl e)
        \<and> (fst (train_model L articles DecisionTreeClassifier []
                  (log_call (Call_ArticleDB False False) w)) = Inr ()
            \<and> fst (train_model L articles MultinomialNB alpha_grid
                  (snd (snd (train_model L articles DecisionTreeClassifier []
                     (log_call (Call_ArticleDB False False) w))))) = Inl e \<longrightarrow>
           fst (article_trainers L w) = Inl e)
        \<and> (fst (train_model L articles DecisionTreeClassifier []
                  (log_call (Call_ArticleDB False False) w)) = Inr ()
            \<and> fst (train_model L articles MultinomialNB alpha_grid
                  (snd (snd (train_model L articles DecisionTreeClassifier []
                     (log_call (Call_ArticleDB False False) w))))) = Inr ()
            \<and> fst (train_model L articles LogisticRegression C_grid
                  (snd (snd (train_model L articles MultinomialNB alpha_grid
                     (snd (snd (train_model L articles DecisionTreeClassifier []
                        (log_call (Call_ArticleDB False False) w)))))))) = Inl e \<longrightarrow>
           fst (article_trainers L w) = Inl e))"
proof -
  have 1: "train_test_split L (rng w) (db_X data) (db_y data) 0.2 None = Inl e \<longrightarrow>
      fst (train_model L data k grid w) = Inl e"
    by (simp add: train_model_def Let_def log_call_def)
  have 2: "train_test_split L (rng w) (db_X data) (db_y data) 0.2 None
        = Inr ((X_train, X_test, y_train, y_test), r1) \<longrightarrow>
        (GridSearchCV_fit L r1 (instantiate k) grid X_train y_train = Inl e \<longrightarrow>
           fst (train_model L data k grid w) = Inl e)"
    by (simp add: train_model_def Let_def log_call_def)
  have 3: "train_test_split L (rng w) (db_X data) (db_y data) 0.2 None
        = Inr ((X_train, X_test, y_train, y_test), r1) \<longrightarrow>
        GridSearchCV_fit L r1 (instantiate k) grid X_train y_train = Inr (model, r2) \<longrightarrow>
             (score L model X_test y_test = Inl e \<longrightarrow>
                fst (train_model L data k grid w) = Inl e)"
    by (simp add: train_model_def Let_def log_call_def)
  have 4: "train_test_split L (rng w) (db_X data) (db_y data) 0.2 None
        = Inr ((X_train, X_test, y_train, y_test), r1) \<longrightarrow>
        GridSearchCV_fit L r1 (instantiate k) grid X_train y_train = Inr (model, r2) \<longrightarrow>
        (score L model X_test y_test = Inr accuracy
                  \<and> fst (report_importance L data (best_estimator model) w) = Inl e \<longrightarrow>
                  fst (train_model L data k grid w) = Inl e)"
    using train_model_result[of L w data X_train X_test y_train y_test r1 k grid model r2
        accuracy w]
    by auto
  have 5: "ArticleDB_init L False False = Inl e \<longrightarrow> fst (article_trainers L w) = Inl e"
    by (simp add: article_trainers_def Let_def)
  have 6: "ArticleDB_init L False False = Inr articles \<longrightarrow>
        (fst (train_model L articles DecisionTreeClassifier []
               (log_call (Call_ArticleDB False False) w)) = Inl e \<longrightarrow>
           fst (article_trainers L w) = Inl e)
        \<and> (fst (train_model L articles DecisionTreeClassifier []
                  (log_call (Call_ArticleDB False False) w)) = Inr ()
            \<and> fst (train_model L articles MultinomialNB alpha_grid
                  (snd (snd (train_model L articles DecisionTreeClassifier []
                     (log_call (Call_ArticleDB False False) w))))) = Inl e \<longrightarrow>
           fst (article_trainers L w) = Inl e)
        \<and> (fst (train_model L articles DecisionTreeClassifier []
                  (log_call (Call_ArticleDB False False) w)) = Inr ()
            \<and> fst (train_model L articles MultinomialNB alpha_grid
                  (snd (snd (train_model L articles DecisionTreeClassifier []
                     (log_call (Call_ArticleDB False False) w))))) = Inr ()
            \<and> fst (train_model L articles LogisticRegression C_grid
                  (snd (snd (train_model L articles MultinomialNB alpha_grid
                     (snd (snd (train_model L articles DecisionTreeClassifier []
                        (log_call (Call_ArticleDB False False) w)))))))) = Inl e \<longrightarrow>
           fst (article_trainers L w) = Inl e)"
  proof
    assume i: "ArticleDB_init L False False = Inr articles"
    show "(fst (train_model L articles DecisionTreeClassifier []
               (log_call (Call_ArticleDB False False) w)) = Inl e \<longrightarrow>
           fst (article_trainers L w) = Inl e)
        \<and> (fst (train_model L articles DecisionTreeClassifier []
                  (log_call (Call_ArticleDB False False) w)) = Inr ()
            \<and> fst (train_model L articles MultinomialNB alpha_grid
                  (snd (snd (train_model L articles DecisionTreeClassifier []
                     (log_call (Call_ArticleDB False False) w))))) = Inl e \<longrightarrow>
           fst (article_trainers L w) = Inl e)
        \<and> (fst (train_model L articles DecisionTreeClassifier []
                  (log_call (Call_ArticleDB False False) w)) = Inr ()
            \<and> fst (train_model L articles MultinomialNB alpha_grid
                  (snd (snd (train_model L articles DecisionTreeClassifier []
                     (log_call (Call_ArticleDB False False) w))))) = Inr ()
            \<and> fst (train_model L articles LogisticRegression C_grid
                  (snd (snd (train_model L articles MultinomialNB alpha_grid
                     (snd (snd (train_model L articles DecisionTreeClassifier []
                        (log_call (Call_ArticleDB False False) w)))))))) = Inl e \<longrightarrow>
           fst (article_trainers L w) = Inl e)"
      unfolding article_trainers_unfold[OF i] by (simp add: Let_def)
  qed
  show ?thesis using 1 2 3 4 5 6 by blast
qed


theorem exceptions_propagate_witness:
  "fst (train_model ref_lib empty_articles DecisionTreeClassifier [] (start 0)) = Inl ValueError
   \<and> fst (train_model ref_lib ref_articles MultinomialNB [(''alpha'', [])] (start 0))
       = Inl ValueError
   \<and> fst (train_model (lib_with short_attrs) ref_articles DecisionTreeClassifier [] (start 0))
       = Inl ValueError
   \<and> fst (main no_db_lib 0) = Inl (LibraryError ''no database'')
   \<and> fst (main (lib_with sklearn_attrs) 0) = Inl TypeError"
proof -
  have a: "fst (train_model ref_lib empty_articles DecisionTreeClassifier [] (start 0))
             = Inl ValueError"
  proof -
    have "train_test_split ref_lib (rng (start 0)) (db_X empty_articles) (db_y empty_articles)
            0.2 None = Inl ValueError"
      by (simp add: ref_lib_def lib_with_def ref_split_def empty_articles_def Let_def)
    then show ?thesis
      using exceptions_propagate[of ref_lib "start 0" empty_articles ValueError
          DecisionTreeClassifier "[]"]
      by blast
  qed
  have b: "fst (train_model ref_lib ref_articles MultinomialNB [(''alpha'', [])] (start 0))
             = Inl ValueError"
  proof -
    have "GridSearchCV_fit ref_lib (Suc 0) (instantiate MultinomialNB) [(''alpha'', [])]
            (take 8 (db_X ref_articles)) (take 8 (db_y ref_articles)) = Inl ValueError"
      by (simp add: ref_lib_def lib_with_def ref_fit_def ParameterGrid_def)
    then show ?thesis
      using exceptions_propagate[of ref_lib "start 0" ref_articles ValueError MultinomialNB
          "[(''alpha'', [])]" "take 8 (db_X ref_articles)" "drop 8 (db_X ref_articles)"
          "take 8 (db_y ref_articles)" "drop 8 (db_y ref_articles)" "Suc 0"]
        lib_split[of tree_attrs 0, folded ref_lib_def]
      by blast
  qed
  have c: "fst (train_model (lib_with short_attrs) ref_articles DecisionTreeClassifier []
                  (start 0)) = Inl ValueError"
  proof -
    let ?model = "\<lparr>best_params = [], best_score = 1,
                   best_estimator = short_attrs (instantiate DecisionTreeClassifier),
                   cv_results_params = [[]], n_splits = 5\<rparr>"
    have vi: "variable_importance (best_estimator ?model) = Array1 [1, 2, 3]"
      by (simp add: variable_importance_def short_attrs_def instantiate_def)
    have "report_importance (lib_with short_attrs) ref_articles (best_estimator ?model)
            (start 0) = (Inl ValueError, start 0)"
      by (rule report_importance_short[OF vi]) simp_all
    then have "fst (report_importance (lib_with short_attrs) ref_articles (best_estimator ?model)
                 (start 0)) = Inl ValueError"
      by (simp only: fst_conv)
    then show ?thesis
      using exceptions_propagate[of "lib_with short_attrs" "start 0" ref_articles ValueError
          DecisionTreeClassifier "[]" "take 8 (db_X ref_articles)" "drop 8 (db_X ref_articles)"
          "take 8 (db_y ref_articles)" "drop 8 (db_y ref_articles)" "Suc 0" ?model
          "Suc (Suc 0)" 1]
        lib_split[of short_attrs 0] lib_fit_empty[of short_attrs "Suc 0" DecisionTreeClassifier]
        lib_score[of short_attrs]
      by blast
  qed
  have d: "fst (main no_db_lib 0) = Inl (LibraryError ''no database'')"
  proof -
    have "ArticleDB_init no_db_lib False False = Inl (LibraryError ''no database'')"
      by (simp add: no_db_lib_def)
    then show ?thesis
      unfolding main_def
      using exceptions_propagate[of no_db_lib "start 0" _ "LibraryError ''no database''"]
      by blast
  qed
  have e: "fst (main (lib_with sklearn_attrs) 0) = Inl TypeError"
  proof -
    let ?L = "lib_with sklearn_attrs"
    let ?w1 = "log_call (Call_ArticleDB False False) (start 0)"
    let ?r1 = "train_model ?L ref_articles DecisionTreeClassifier [] ?w1"
    have i: "ArticleDB_init ?L False False = Inr ref_articles" by (simp add: lib_with_def)
    have r1: "fst ?r1 = Inr ()"
      by (rule lib_train_ok[OF ParameterGrid_empty])
        (simp add: variable_importance_def sklearn_attrs_def instantiate_def)
    have vi: "variable_importance
                (sklearn_attrs ((instantiate MultinomialNB)\<lparr>init_args := [(''alpha'', PFloat 0.1)]\<rparr>))
              = Array2 12 [ref_importances]"
      by (simp add: variable_importance_def sklearn_attrs_def instantiate_def)
    have r2: "fst (train_model ?L ref_articles MultinomialNB alpha_grid (snd (snd ?r1)))
                = Inl TypeError"
      unfolding lib_train_result[OF ParameterGrid_alpha_grid, of sklearn_attrs MultinomialNB _
          "start 0"]
      by (simp add: report_importance_Array2[OF vi])
    show ?thesis
      unfolding main_def
      using exceptions_propagate[of ?L "start 0" _ TypeError _ _ _ _ _ _ _ _ _ _ ref_articles]
        i r1 r2
      by blast
  qed
  show ?thesis using a b c d e by blast
qed

end
